theory Spec2Isabelle
  imports Complex_Main "HOL-Library.Word" "HOL-Library.Sublist"
begin

section \<open>Python values used by updateCheck.py\<close>

text \<open>
  A Python \<open>str\<close> is a sequence of Unicode code points, so it is modelled as a list of
  natural numbers; \<open>str\<close> turns an ASCII literal of the source into that form.
  \<open>bytes\<close> are lists of 8-bit words.
\<close>

type_synonym pystr = "nat list"
type_synonym byte = "8 word"

definition str :: "string \<Rightarrow> pystr" where
  "str s = map of_char s"

text \<open>
  Every exception the modelled functions raise, named after the message or the Python
  exception class of the source.
\<close>

datatype error =
    InvalidLineFormat pystr
  | MissingRequiredKeys "pystr list"
  | UnicodeDecodeError
  | IndexError
  | KeyError string
  | TypeError
  | FetchError
  | CheckFailedStatus int
  | InvalidUpdateResponse
  | URLError
  | DownloadFailedCode int
  | ContentTooShort
  | IncorrectFileHash
  | ReadError
  | UnboundLocalError
  | ValueError
  | OverflowError
  | OSError

subsection \<open>\<open>str.split(sep, 1)\<close> and \<open>str.splitlines()\<close>\<close>

text \<open>
  \<open>key, val = line.split(": ", 1)\<close>: the line is cut at the first occurrence of the
  (non-empty) separator. When the separator does not occur, \<open>split\<close> returns a single
  element and the unpacking raises \<open>ValueError\<close>: that is \<open>None\<close> here.
\<close>

fun split_once :: "pystr \<Rightarrow> pystr \<Rightarrow> (pystr \<times> pystr) option" where
  "split_once sep [] = None"
| "split_once sep (c # cs) =
     (if prefix sep (c # cs) then Some ([], drop (length sep) (c # cs))
      else (case split_once sep cs of
              None \<Rightarrow> None
            | Some (k, v) \<Rightarrow> Some (c # k, v)))"

text \<open>
  The line boundaries of \<open>str.splitlines()\<close>: LF, VT, FF, CR, FS, GS, RS, NEL,
  LINE SEPARATOR and PARAGRAPH SEPARATOR; CR LF counts as one boundary.
\<close>

definition is_linebreak :: "nat \<Rightarrow> bool" where
  "is_linebreak c \<longleftrightarrow>
     c = 0x0A \<or> c = 0x0B \<or> c = 0x0C \<or> c = 0x0D \<or> c = 0x1C \<or> c = 0x1D \<or> c = 0x1E \<or>
     c = 0x85 \<or> c = 0x2028 \<or> c = 0x2029"

text \<open>
  \<open>splitlines_from cur s\<close>: \<open>cur\<close> is the line read so far. A boundary closes the
  current line (also an empty one); the end of the text closes it only when it is not
  empty, so a final boundary does not produce a trailing empty line.
\<close>

fun splitlines_from :: "pystr \<Rightarrow> pystr \<Rightarrow> pystr list" where
  "splitlines_from cur [] = (if cur = [] then [] else [cur])"
| "splitlines_from cur [c] =
     (if is_linebreak c then [cur] else [cur @ [c]])"
| "splitlines_from cur (c # d # cs) =
     (if c = 0x0D \<and> d = 0x0A then cur # splitlines_from [] cs
      else if is_linebreak c then cur # splitlines_from [] (d # cs)
      else splitlines_from (cur @ [c]) (d # cs))"

definition splitlines :: "pystr \<Rightarrow> pystr list" where
  "splitlines s = splitlines_from [] s"

section \<open>The update descriptor and its parser\<close>

text \<open>The dataclass \<open>UpdateInfo\<close>: three required fields, four optional ones.\<close>

record UpdateInfo =
  version :: pystr
  launcherUrl :: pystr
  apiVersion :: pystr
  launcherHash :: "pystr option"
  apiCompatTo :: "pystr option"
  changesUrl :: "pystr option"
  launcherInteractiveUrl :: "pystr option"

text \<open>
  \<open>knownKeys\<close> are the parameters of the dataclass constructor; \<open>requiredKeys\<close> those
  without a default. Python holds both as sets; the lists fix the declaration order.
\<close>

definition knownKeys :: "pystr list" where
  "knownKeys = [str ''version'', str ''launcherUrl'', str ''apiVersion'',
     str ''launcherHash'', str ''apiCompatTo'', str ''changesUrl'',
     str ''launcherInteractiveUrl'']"

definition requiredKeys :: "pystr list" where
  "requiredKeys = [str ''version'', str ''launcherUrl'', str ''apiVersion'']"

definition sep :: pystr where
  "sep = str '': ''"

text \<open>
  The loop of \<open>parseUpdateCheckResponse\<close> over the lines, with the dictionary
  \<open>metadata\<close> passed along: a line that does not split raises, a known key is stored
  (a later line overwrites an earlier one), an unknown key is only logged.
\<close>

fun parse_lines :: "pystr list \<Rightarrow> (pystr \<rightharpoonup> pystr) \<Rightarrow> error + (pystr \<rightharpoonup> pystr)" where
  "parse_lines [] metadata = Inr metadata"
| "parse_lines (line # ls) metadata =
     (case split_once sep line of
        None \<Rightarrow> Inl (InvalidLineFormat line)
      | Some (key, val) \<Rightarrow>
          if key \<in> set knownKeys then parse_lines ls (metadata(key \<mapsto> val))
          else parse_lines ls metadata)"

text \<open>
  \<open>cls(**metadata)\<close>: the constructor call with the dictionary as keyword arguments.
  A missing required argument is a \<open>TypeError\<close>; the keys of \<open>metadata\<close> are all known,
  so no unexpected keyword can occur.
\<close>

definition construct :: "(pystr \<rightharpoonup> pystr) \<Rightarrow> error + UpdateInfo" where
  "construct metadata =
     (case (metadata (str ''version''), metadata (str ''launcherUrl''),
            metadata (str ''apiVersion'')) of
        (Some v, Some u, Some a) \<Rightarrow>
          Inr \<lparr>version = v, launcherUrl = u, apiVersion = a,
               launcherHash = metadata (str ''launcherHash''),
               apiCompatTo = metadata (str ''apiCompatTo''),
               changesUrl = metadata (str ''changesUrl''),
               launcherInteractiveUrl = metadata (str ''launcherInteractiveUrl'')\<rparr>
      | _ \<Rightarrow> Inl TypeError)"

text \<open>
  \<open>requiredKeys.difference_update(metadata)\<close> leaves the required keys that are not
  in the dictionary. Python joins them in the iteration order of a set, which is not
  specified; the model lists them in declaration order.
\<close>

definition parseUpdateCheckResponse :: "pystr \<Rightarrow> error + UpdateInfo" where
  "parseUpdateCheckResponse data =
     (case parse_lines (splitlines data) Map.empty of
        Inl e \<Rightarrow> Inl e
      | Inr metadata \<Rightarrow>
          (let missing = filter (\<lambda>k. metadata k = None) requiredKeys
           in if length missing > 0 then Inl (MissingRequiredKeys missing)
              else construct metadata))"

text \<open>
  The key-value records of a list of lines, for stating what the parser returns: each
  line that splits contributes its pair, in order.
\<close>

definition records :: "pystr list \<Rightarrow> (pystr \<times> pystr) list" where
  "records ls = List.map_filter (split_once sep) ls"

text \<open>The value of the last record with key \<open>k\<close>, if there is one.\<close>

definition last_value :: "pystr \<Rightarrow> pystr \<Rightarrow> pystr option" where
  "last_value data k = map_of (rev (records (splitlines data))) k"

text \<open>
  The text a server sends for a descriptor, as the query protocol describes it:
  one \<open>Key: Value\<close> record per line, a record for every field that is set.
\<close>

definition field_line :: "string \<Rightarrow> pystr \<Rightarrow> pystr" where
  "field_line k v = str k @ sep @ v @ [0x0A]"

definition opt_line :: "string \<Rightarrow> pystr option \<Rightarrow> pystr" where
  "opt_line k v = (case v of None \<Rightarrow> [] | Some x \<Rightarrow> field_line k x)"

definition response_text :: "UpdateInfo \<Rightarrow> pystr" where
  "response_text d =
     field_line ''version'' (version d) @
     field_line ''launcherUrl'' (launcherUrl d) @
     field_line ''apiVersion'' (apiVersion d) @
     opt_line ''launcherHash'' (launcherHash d) @
     opt_line ''apiCompatTo'' (apiCompatTo d) @
     opt_line ''changesUrl'' (changesUrl d) @
     opt_line ''launcherInteractiveUrl'' (launcherInteractiveUrl d)"

definition one_line :: "pystr \<Rightarrow> bool" where
  "one_line s \<longleftrightarrow> list_all (\<lambda>c. \<not> is_linebreak c) s"

definition opt_one_line :: "pystr option \<Rightarrow> bool" where
  "opt_one_line v = (case v of None \<Rightarrow> True | Some s \<Rightarrow> one_line s)"

definition single_line_fields :: "UpdateInfo \<Rightarrow> bool" where
  "single_line_fields d \<longleftrightarrow>
     one_line (version d) \<and> one_line (launcherUrl d) \<and> one_line (apiVersion d) \<and>
     opt_one_line (launcherHash d) \<and> opt_one_line (apiCompatTo d) \<and>
     opt_one_line (changesUrl d) \<and> opt_one_line (launcherInteractiveUrl d)"

text \<open>The dictionary the loop builds from \<open>response_text d\<close>.\<close>

definition response_map :: "UpdateInfo \<Rightarrow> (pystr \<rightharpoonup> pystr)" where
  "response_map d =
     (let m3 = [str ''version'' \<mapsto> version d, str ''launcherUrl'' \<mapsto> launcherUrl d,
                str ''apiVersion'' \<mapsto> apiVersion d];
          m4 = (case launcherHash d of None \<Rightarrow> m3 | Some v \<Rightarrow> m3(str ''launcherHash'' \<mapsto> v));
          m5 = (case apiCompatTo d of None \<Rightarrow> m4 | Some v \<Rightarrow> m4(str ''apiCompatTo'' \<mapsto> v));
          m6 = (case changesUrl d of None \<Rightarrow> m5 | Some v \<Rightarrow> m5(str ''changesUrl'' \<mapsto> v))
      in (case launcherInteractiveUrl d of
            None \<Rightarrow> m6
          | Some v \<Rightarrow> m6(str ''launcherInteractiveUrl'' \<mapsto> v)))"

section \<open>Values of dictionaries\<close>

text \<open>
  A Python \<open>float\<close>: a finite value, an infinity or NaN. The finite values are real
  numbers (the doubles are among them); the module does no arithmetic on them that is
  not written out below or taken from the environment.
\<close>

datatype pyfloat = Finite real | PosInf | NegInf | NaN

text \<open>
  The values the module keeps in its dictionaries (the persisted \<open>state\<close> and the query
  parameters): \<open>None\<close>, booleans, strings, integers, floats (time stamps) and the version
  triples of the add-on API. The keys are literals of the source, so they are HOL strings.
\<close>

datatype pyval =
  PNone | PBool bool | PStr pystr | PInt int | PFloat pyfloat | PVer int int int

text \<open>Python's truth value of an object.\<close>

fun truthy :: "pyval \<Rightarrow> bool" where
  "truthy PNone = False"
| "truthy (PBool b) = b"
| "truthy (PStr s) = (s \<noteq> [])"
| "truthy (PInt n) = (n \<noteq> 0)"
| "truthy (PFloat x) = (x \<noteq> Finite 0)"
| "truthy (PVer a b c) = True"

type_synonym pydict = "string \<rightharpoonup> pyval"

text \<open>
  A dictionary whose iteration order matters (the query parameters) is an association
  list; \<open>dict_set\<close> is \<open>d[k] = v\<close> and \<open>dict_update\<close> is \<open>d.update(e)\<close>: an existing key
  keeps its place, a new one goes to the end.
\<close>

fun dict_set :: "(string \<times> pyval) list \<Rightarrow> string \<Rightarrow> pyval \<Rightarrow> (string \<times> pyval) list" where
  "dict_set [] k v = [(k, v)]"
| "dict_set ((k', v') # d) k v = (if k' = k then (k, v) # d else (k', v') # dict_set d k v)"

fun dict_update :: "(string \<times> pyval) list \<Rightarrow> (string \<times> pyval) list \<Rightarrow> (string \<times> pyval) list" where
  "dict_update d [] = d"
| "dict_update d ((k, v) # e) = dict_update (dict_set d k v) e"

text \<open>Decimal digits of a natural number, as \<open>"%d"\<close> and \<open>str.format\<close> print it.\<close>

fun str_of_nat :: "nat \<Rightarrow> pystr" where
  "str_of_nat n = (if n < 10 then [48 + n] else str_of_nat (n div 10) @ [48 + n mod 10])"

declare str_of_nat.simps [simp del]

subsection \<open>Decoding UTF-8\<close>

text \<open>
  \<open>bytes.decode("utf-8")\<close> with the default strict error handling: shortest forms
  only, no surrogates, nothing beyond U+10FFFF; any other byte sequence raises
  \<open>UnicodeDecodeError\<close> (\<open>None\<close> here).
\<close>

definition is_cont :: "nat \<Rightarrow> bool" where
  "is_cont b \<longleftrightarrow> 0x80 \<le> b \<and> b \<le> 0xBF"

text \<open>
  \<open>utf8_head b bs\<close> decodes the character that starts with the byte \<open>b\<close>: its code
  point and the number of continuation bytes it takes from \<open>bs\<close>.
\<close>

definition utf8_head :: "nat \<Rightarrow> nat list \<Rightarrow> (nat \<times> nat) option" where
  "utf8_head b bs =
     (if b < 0x80 then Some (b, 0)
      else if 0xC2 \<le> b \<and> b \<le> 0xDF then
        (case bs of
           c1 # r \<Rightarrow>
             if is_cont c1 then Some ((b - 0xC0) * 64 + (c1 - 0x80), 1) else None
         | _ \<Rightarrow> None)
      else if 0xE0 \<le> b \<and> b \<le> 0xEF then
        (case bs of
           c1 # c2 # r \<Rightarrow>
             if (if b = 0xE0 then 0xA0 else 0x80) \<le> c1 \<and>
                c1 \<le> (if b = 0xED then 0x9F else 0xBF) \<and> is_cont c2
             then Some ((b - 0xE0) * 4096 + (c1 - 0x80) * 64 + (c2 - 0x80), 2)
             else None
         | _ \<Rightarrow> None)
      else if 0xF0 \<le> b \<and> b \<le> 0xF4 then
        (case bs of
           c1 # c2 # c3 # r \<Rightarrow>
             if (if b = 0xF0 then 0x90 else 0x80) \<le> c1 \<and>
                c1 \<le> (if b = 0xF4 then 0x8F else 0xBF) \<and> is_cont c2 \<and> is_cont c3
             then Some ((b - 0xF0) * 262144 + (c1 - 0x80) * 4096 + (c2 - 0x80) * 64 +
                        (c3 - 0x80), 3)
             else None
         | _ \<Rightarrow> None)
      else None)"

fun utf8_points :: "nat list \<Rightarrow> pystr option" where
  "utf8_points [] = Some []"
| "utf8_points (b # bs) =
     (case utf8_head b bs of
        None \<Rightarrow> None
      | Some (cp, n) \<Rightarrow> map_option ((#) cp) (utf8_points (drop n bs)))"

definition decode_utf8 :: "byte list \<Rightarrow> pystr option" where
  "decode_utf8 bs = utf8_points (map unat bs)"

section \<open>The environment of the module\<close>

text \<open>
  Everything the module reads from the host application and the operating system:
  the configuration (\<open>config.conf["update"]\<close>, \<open>config.conf["braille"]\<close>), the running
  version, the command line (\<open>globalVars.appArgs\<close>), the Windows version, the drivers
  in use, the file system and the network.
\<close>

record winver =
  major :: nat
  minor :: nat
  build :: nat
  service_pack_major :: nat
  service_pack_minor :: nat
  product_type :: int

text \<open>
  What \<open>getQualifiedDriverClassNameForStats\<close> reads of a driver class: its name, the
  add-on it comes from (none, also when \<open>getCodeAddon\<close> raises \<open>AddonError\<close>), and
  whether its source file is outside the application.
\<close>

record driver =
  driver_name :: pystr
  driver_addon :: "pystr option"
  driver_external :: bool

record response =
  status_code :: int
  content :: "byte list"

text \<open>
  How a write of the state file goes: it succeeds, \<open>open\<close> raises (the file stays as
  it was), or \<open>open\<close> has truncated the file and \<open>pickle.dump\<close> or the closing of the
  file raises.
\<close>

datatype write_outcome = Written | OpenFails | DumpFails

record env =
  conf_serverURL :: pystr
  conf_allowUsageStats :: bool
  conf_autoCheck :: bool
  conf_startupNotification :: bool
  conf_translationTable :: pystr
  versionInfo_version :: pystr
  versionInfo_updateVersionType :: pystr
  winVersion :: winver
  PROCESSOR_ARCHITEW6432 :: "pystr option"
  language :: pystr
  isInstalledCopy :: bool
  synthDriver :: driver
  brailleDisplay :: "driver option"
  appDir :: pystr
  appDir_writable :: bool
  disableAddons :: bool
  launcher :: bool
  configDir :: pystr
  uuid4_hex :: pystr
  fromtimestamp :: "pyval \<Rightarrow> error + int \<times> int"
  time_minus :: "pyfloat \<Rightarrow> pyval \<Rightarrow> error + pyfloat"
  isfile :: "pystr \<Rightarrow> bool"
  isfile_fd :: "int \<Rightarrow> bool"
  listdir :: "pystr list option"
  removable :: "pystr \<Rightarrow> bool"
  stateFile_write :: write_outcome
  fetch :: "pystr \<Rightarrow> (string \<times> pyval) list \<Rightarrow> error + response"

text \<open>
  \<open>uuid4_hex\<close> is the identifier \<open>uuid4().hex\<close> returns. \<open>fromtimestamp v\<close> is the year
  and the month of \<open>datetime.fromtimestamp(v)\<close> in the local calendar, or the exception it
  raises. \<open>time_minus now v\<close> is the value of the float subtraction \<open>now - v\<close> as Python
  computes it (with its rounding), or the exception it raises when \<open>v\<close> is not a number.
  \<open>isfile\<close> is \<open>os.path.isfile\<close> on a path and \<open>isfile_fd\<close> on a file descriptor.
  \<open>listdir\<close> holds the paths \<open>os.path.join(storeUpdatesDir, fileName)\<close> of the files in
  the updates directory (\<open>None\<close> when \<open>os.listdir\<close> raises \<open>OSError\<close>); \<open>removable\<close> tells
  whether \<open>os.remove\<close> succeeds; \<open>stateFile_write\<close> how writing the state file goes.
  \<open>fetch\<close> is \<open>_fetchUrlAndUpdateRootCertificates\<close>, given the check URL and the
  parameters that \<open>urlencode\<close> appends to it.
\<close>

section \<open>The query client\<close>

definition DEFAULT_CHECK_URL :: pystr where
  "DEFAULT_CHECK_URL = str ''https://api.nvaccess.org/nvdaUpdateCheck''"

definition getCheckURL :: "env \<Rightarrow> pystr" where
  "getCheckURL E = (if conf_serverURL E \<noteq> [] then conf_serverURL E else DEFAULT_CHECK_URL)"

definition getQualifiedDriverClassNameForStats :: "driver \<Rightarrow> pystr" where
  "getQualifiedDriverClassNameForStats cls =
     (case driver_addon cls of
        Some a \<Rightarrow> driver_name cls @ str '' (addon:'' @ a @ str '')''
      | None \<Rightarrow>
          if driver_external cls then driver_name cls @ str '' (external)''
          else driver_name cls @ str '' (core)'')"

text \<open>Indexing a Python tuple: a negative index counts from the end.\<close>

definition tuple_index :: "'a list \<Rightarrow> int \<Rightarrow> error + 'a" where
  "tuple_index xs i =
     (let n = int (length xs); j = (if i < 0 then n + i else i)
      in if 0 \<le> j \<and> j < n then Inr (xs ! nat j) else Inl IndexError)"

definition winVersionText :: "winver \<Rightarrow> error + pystr" where
  "winVersionText v =
     (let t0 = str_of_nat (major v) @ str ''.'' @ str_of_nat (minor v) @ str ''.'' @
               str_of_nat (build v);
          t1 = (if service_pack_major v \<noteq> 0
                then t0 @ str '' service pack '' @ str_of_nat (service_pack_major v) @
                     (if service_pack_minor v \<noteq> 0
                      then str ''.'' @ str_of_nat (service_pack_minor v) else [])
                else t0)
      in case tuple_index [str ''workstation'', str ''domain controller'', str ''server'']
                (product_type v - 1) of
           Inl e \<Rightarrow> Inl e
         | Inr kind \<Rightarrow> Inr (t1 @ str '' '' @ kind))"

text \<open>The parameters sent purely for statistics (\<open>extraParams\<close>).\<close>

definition extraParams :: "env \<Rightarrow> pyval \<Rightarrow> (string \<times> pyval) list" where
  "extraParams E ident =
     [(''id'', ident),
      (''language'', PStr (language E)),
      (''installed'', PBool (isInstalledCopy E)),
      (''synthDriver'', PStr (getQualifiedDriverClassNameForStats (synthDriver E))),
      (''brailleDisplay'',
         (case brailleDisplay E of
            Some cls \<Rightarrow> PStr (getQualifiedDriverClassNameForStats cls)
          | None \<Rightarrow> PNone)),
      (''outputBrailleTable'',
         (case brailleDisplay E of
            Some cls \<Rightarrow> PStr (conf_translationTable E)
          | None \<Rightarrow> PNone))]"

text \<open>
  The first part of \<open>checkForUpdate\<close>: the dictionary \<open>params\<close> of the query. The
  statistics are added only under \<open>if auto and allowUsageStats\<close>.
\<close>

definition checkForUpdate_params :: "env \<Rightarrow> pydict \<Rightarrow> bool \<Rightarrow> error + (string \<times> pyval) list" where
  "checkForUpdate_params E state auto =
     (case winVersionText (winVersion E) of
        Inl e \<Rightarrow> Inl e
      | Inr text \<Rightarrow>
          (let params =
             [(''autoCheck'', PBool auto),
              (''allowUsageStats'', PBool (conf_allowUsageStats E)),
              (''version'', PStr (versionInfo_version E)),
              (''versionType'', PStr (versionInfo_updateVersionType E)),
              (''osVersion'', PStr text),
              (''x64'', PBool (PROCESSOR_ARCHITEW6432 E = Some (str ''AMD64''))),
              (''osArchitecture'',
                 (case PROCESSOR_ARCHITEW6432 E of Some a \<Rightarrow> PStr a | None \<Rightarrow> PNone))]
           in if auto \<and> conf_allowUsageStats E then
                (case state ''id'' of
                   None \<Rightarrow> Inl (KeyError ''id'')
                 | Some ident \<Rightarrow> Inr (dict_update params (extraParams E ident)))
              else Inr params))"

text \<open>
  The rest of \<open>checkForUpdate\<close>: the request, the status check, the decoding, the
  empty body as "no update", and the parse, whose \<open>ValueError\<close> is turned into the
  \<open>RuntimeError\<close> "The update response is invalid".
\<close>

definition checkForUpdate :: "env \<Rightarrow> pydict \<Rightarrow> bool \<Rightarrow> error + UpdateInfo option" where
  "checkForUpdate E state auto =
     (case checkForUpdate_params E state auto of
        Inl e \<Rightarrow> Inl e
      | Inr params \<Rightarrow>
          (case fetch E (getCheckURL E) params of
             Inl e \<Rightarrow> Inl e
           | Inr result \<Rightarrow>
               if status_code result \<noteq> 200 then Inl (CheckFailedStatus (status_code result))
               else
                 (case decode_utf8 (content result) of
                    None \<Rightarrow> Inl UnicodeDecodeError
                  | Some data \<Rightarrow>
                      if data = [] then Inr None
                      else
                        (case parseUpdateCheckResponse data of
                           Inl (InvalidLineFormat l) \<Rightarrow> Inl InvalidUpdateResponse
                         | Inl (MissingRequiredKeys ks) \<Rightarrow> Inl InvalidUpdateResponse
                         | Inl e \<Rightarrow> Inl e
                         | Inr parsed_response \<Rightarrow> Inr (Some parsed_response)))))"

section \<open>The persisted state and the host\<close>

text \<open>
  The state file: absent (\<open>open\<close> raises), one that opens but cannot be unpickled, or
  the pickle of \<open>None\<close> or of a dictionary (\<open>saveState\<close> writes a dictionary).
\<close>

datatype statefile = NoFile | Unreadable | PickledNone | Pickled pydict

text \<open>
  What the module changes: its global dictionary \<open>state\<close>, the state file, the module
  global \<open>autoChecker\<close> (whether the instance exists), whether the host is already
  shutting down, and the calls the module makes to the host, the user interface and
  the log, in order. A function that can raise returns the exception together with the
  world as it is when the exception leaves the function.
\<close>

datatype event =
    PickleDump pydict
  | LogDebugWarning string
  | LogError string
  | LogInfo string
  | TriggerNVDAExit pystr pystr
  | TimerStop
  | TimerStart int
  | ProgressDone
  | ErrorMessageBox
  | ResultDialog "UpdateInfo option" bool
  | Removed pystr
  | LogWarning string

record world =
  state :: pydict
  stateFile :: statefile
  autoChecker :: bool
  shuttingDown :: bool
  events :: "event list"

definition emit :: "event \<Rightarrow> world \<Rightarrow> world" where
  "emit e w = w\<lparr>events := events w @ [e]\<rparr>"

definition CHECK_INTERVAL :: int where
  "CHECK_INTERVAL = 86400"

definition RETRY_INTERVAL :: int where
  "RETRY_INTERVAL = 600"

definition setStateToNone :: "pydict \<Rightarrow> pydict" where
  "setStateToNone st =
     st(''pendingUpdateFile'' \<mapsto> PNone,
        ''pendingUpdateVersion'' \<mapsto> PNone,
        ''pendingUpdateAPIVersion'' \<mapsto> PVer 0 0 0,
        ''pendingUpdateBackCompatToAPIVersion'' \<mapsto> PVer 0 0 0)"

text \<open>
  \<open>saveState\<close>: the state is pickled into the state file; any exception is caught and
  logged. A file cut short by a failed write cannot be unpickled.
\<close>

definition saveState :: "env \<Rightarrow> world \<Rightarrow> world" where
  "saveState E w =
     (case stateFile_write E of
        Written \<Rightarrow> emit (PickleDump (state w)) (w\<lparr>stateFile := Pickled (state w)\<rparr>)
      | OpenFails \<Rightarrow> emit (LogDebugWarning ''Error saving state'') w
      | DumpFails \<Rightarrow>
          emit (LogDebugWarning ''Error saving state'') (w\<lparr>stateFile := Unreadable\<rparr>))"

text \<open>\<open>x or (0, 0, 0)\<close>\<close>

definition or_zero_version :: "pyval \<Rightarrow> pyval" where
  "or_zero_version x = (if truthy x then x else PVer 0 0 0)"

text \<open>
  \<open>os.path.isfile\<close> answers for a path and for a file descriptor (an integer; \<open>bool\<close> is
  an integer in Python); for a float, a tuple or \<open>None\<close> it raises \<open>TypeError\<close>.
\<close>

definition os_path_isfile :: "env \<Rightarrow> pyval \<Rightarrow> error + bool" where
  "os_path_isfile E p =
     (case p of
        PStr s \<Rightarrow> Inr (isfile E s)
      | PInt n \<Rightarrow> Inr (isfile_fd E n)
      | PBool b \<Rightarrow> Inr (isfile_fd E (if b then 1 else 0))
      | _ \<Rightarrow> Inl TypeError)"

text \<open>
  \<open>getPendingUpdate\<close>: a missing key (\<open>KeyError\<close>) resets the pending fields; so does a
  \<open>pendingUpdateFile\<close> that is empty or not an existing file. The \<open>TypeError\<close> of
  \<open>os.path.isfile\<close> is not caught.
\<close>

definition getPendingUpdate ::
  "env \<Rightarrow> world \<Rightarrow> (error + (pyval \<times> pyval \<times> pyval \<times> pyval) option) \<times> world" where
  "getPendingUpdate E w =
     (case (state w ''pendingUpdateFile'', state w ''pendingUpdateVersion'',
            state w ''pendingUpdateAPIVersion'',
            state w ''pendingUpdateBackCompatToAPIVersion'') of
        (Some pendingUpdateFile, Some pendingUpdateVersion, Some api, Some back) \<Rightarrow>
          if \<not> truthy pendingUpdateFile
          then (Inr None, w\<lparr>state := setStateToNone (state w)\<rparr>)
          else
            (case os_path_isfile E pendingUpdateFile of
               Inl e \<Rightarrow> (Inl e, w)
             | Inr True \<Rightarrow>
                 (Inr (Some (pendingUpdateFile, pendingUpdateVersion, or_zero_version api,
                             or_zero_version back)), w)
             | Inr False \<Rightarrow> (Inr None, w\<lparr>state := setStateToNone (state w)\<rparr>))
      | _ \<Rightarrow> (Inr None, w\<lparr>state := setStateToNone (state w)\<rparr>))"

definition isPendingUpdate :: "env \<Rightarrow> world \<Rightarrow> (error + bool) \<times> world" where
  "isPendingUpdate E w =
     (case getPendingUpdate E w of
        (Inl e, w') \<Rightarrow> (Inl e, w')
      | (Inr r, w') \<Rightarrow> (Inr (r \<noteq> None), w'))"

section \<open>The installer handoff\<close>

text \<open>
  \<open>subprocess.list2cmdline\<close>: the arguments are joined with spaces; an argument that
  is empty or holds a space or a tab is put in double quotes; a double quote is escaped
  with a backslash, and the backslashes before a double quote (also the closing one)
  are doubled. \<open>quote_chars bs cs\<close> is the loop over the characters of an argument,
  \<open>bs\<close> the length of \<open>bs_buf\<close>; it returns the text and the backslashes still buffered.
\<close>

fun quote_chars :: "nat \<Rightarrow> pystr \<Rightarrow> pystr \<times> nat" where
  "quote_chars bs [] = ([], bs)"
| "quote_chars bs (c # cs) =
     (if c = 0x5C then quote_chars (Suc bs) cs
      else if c = 0x22 then
        (case quote_chars 0 cs of
           (r, b) \<Rightarrow> (replicate (bs * 2) 0x5C @ [0x5C, 0x22] @ r, b))
      else
        (case quote_chars 0 cs of
           (r, b) \<Rightarrow> (replicate bs 0x5C @ [c] @ r, b)))"

definition quote_arg :: "pystr \<Rightarrow> pystr" where
  "quote_arg arg =
     (let needquote = (0x20 \<in> set arg \<or> 0x09 \<in> set arg \<or> arg = [])
      in case quote_chars 0 arg of
           (r, b) \<Rightarrow>
             (if needquote then [0x22] else []) @ r @ replicate b 0x5C @
             (if needquote then replicate b 0x5C @ [0x22] else []))"

fun list2cmdline_from :: "pystr \<Rightarrow> pystr list \<Rightarrow> pystr" where
  "list2cmdline_from result [] = result"
| "list2cmdline_from result (arg # seq) =
     list2cmdline_from
       (result @ (if result \<noteq> [] then [0x20] else []) @ quote_arg arg) seq"

definition list2cmdline :: "pystr list \<Rightarrow> pystr" where
  "list2cmdline seq = list2cmdline_from [] seq"

text \<open>
  The list \<open>executeParams\<close> that \<open>_generate_updateParameters\<close> builds, and the command
  line it returns.
\<close>

definition executeParams :: "env \<Rightarrow> pystr list" where
  "executeParams E =
     (if isInstalledCopy E then [str ''--install'', str ''-m'']
      else if appDir_writable E
           then [str ''--create-portable'', str ''-m'', str ''--portable-path'', appDir E]
           else [str ''--launcher'']) @
     (if disableAddons E then [str ''--disable-addons''] else []) @
     [str ''--config-path'', configDir E]"

definition generate_updateParameters :: "env \<Rightarrow> pystr" where
  "generate_updateParameters E = list2cmdline (executeParams E)"

text \<open>
  Modelled from the spec: \<open>core.triggerNVDAExit\<close> belongs to the host application and
  its code is not part of this module. The call is recorded with the path and the
  parameters of the new instance; it returns \<open>False\<close> when the host is already shutting
  down (\<open>shuttingDown\<close>), and \<open>True\<close> when it takes the request, after which the host is
  shutting down.
\<close>

definition triggerNVDAExit :: "pystr \<Rightarrow> pystr \<Rightarrow> world \<Rightarrow> bool \<times> world" where
  "triggerNVDAExit path params w =
     (\<not> shuttingDown w, (emit (TriggerNVDAExit path params) w)\<lparr>shuttingDown := True\<rparr>)"

definition executeUpdate :: "env \<Rightarrow> pystr \<Rightarrow> world \<Rightarrow> world" where
  "executeUpdate E destPath w =
     (if destPath = [] then emit (LogError ''destPath must be a non-empty string.'') w
      else
        (let w1 = w\<lparr>state := setStateToNone (state w)\<rparr>;
             w2 = saveState E w1
         in case triggerNVDAExit destPath (generate_updateParameters E) w2 of
              (ok, w3) \<Rightarrow>
                if \<not> ok
                then emit (LogError
                  ''NVDA already in process of exiting, this indicates a logic error.'') w3
                else w3))"

definition is_trigger :: "event \<Rightarrow> bool" where
  "is_trigger e = (case e of TriggerNVDAExit p a \<Rightarrow> True | _ \<Rightarrow> False)"

text \<open>
  The arguments written one after the other with single spaces between them, and the
  arguments that \<open>list2cmdline\<close> has no reason to quote.
\<close>

fun unwords :: "pystr list \<Rightarrow> pystr" where
  "unwords [] = []"
| "unwords [a] = a"
| "unwords (a # b # r) = a @ [0x20] @ unwords (b # r)"

definition plain_arg :: "pystr \<Rightarrow> bool" where
  "plain_arg a \<longleftrightarrow> a \<noteq> [] \<and> 0x20 \<notin> set a \<and> 0x09 \<notin> set a \<and> 0x22 \<notin> set a"

section \<open>The scheduler\<close>

text \<open>
  Comparison of floats: every comparison with NaN is false. \<open>max(a, b)\<close> is \<open>b\<close> when
  \<open>b > a\<close> and \<open>a\<close> otherwise; \<open>min(a, b)\<close> is \<open>b\<close> when \<open>b < a\<close> and \<open>a\<close> otherwise. An
  integer operand (\<open>0\<close>, \<open>CHECK_INTERVAL\<close>) is compared by its exact value.
\<close>

fun float_less :: "pyfloat \<Rightarrow> pyfloat \<Rightarrow> bool" where
  "float_less NaN y = False"
| "float_less x NaN = False"
| "float_less (Finite a) (Finite b) = (a < b)"
| "float_less (Finite a) PosInf = True"
| "float_less (Finite a) NegInf = False"
| "float_less PosInf y = False"
| "float_less NegInf NegInf = False"
| "float_less NegInf y = True"

definition py_max :: "pyfloat \<Rightarrow> pyfloat \<Rightarrow> pyfloat" where
  "py_max a b = (if float_less a b then b else a)"

definition py_min :: "pyfloat \<Rightarrow> pyfloat \<Rightarrow> pyfloat" where
  "py_min a b = (if float_less b a then b else a)"

text \<open>
  \<open>int(x)\<close> truncates a finite float towards zero; it raises \<open>ValueError\<close> for NaN and
  \<open>OverflowError\<close> for an infinity.
\<close>

fun py_int :: "pyfloat \<Rightarrow> error + int" where
  "py_int (Finite x) = Inr (if 0 \<le> x then \<lfloor>x\<rfloor> else \<lceil>x\<rceil>)"
| "py_int NaN = Inl ValueError"
| "py_int PosInf = Inl OverflowError"
| "py_int NegInf = Inl OverflowError"

text \<open>
  \<open>secsTillNext\<close> as \<open>AutoUpdateChecker.__init__\<close> computes it; \<open>now\<close> is \<open>time.time()\<close>.
  \<open>isPendingUpdate\<close> is called only when the startup notification is enabled.
\<close>

definition secsTillNext :: "env \<Rightarrow> pyfloat \<Rightarrow> world \<Rightarrow> (error + int) \<times> world" where
  "secsTillNext E now w =
     (case (if conf_startupNotification E then isPendingUpdate E w else (Inr False, w)) of
        (Inl e, w') \<Rightarrow> (Inl e, w')
      | (Inr pending, w') \<Rightarrow>
          if conf_startupNotification E \<and> pending then (Inr 0, w')
          else
            (case state w' ''lastCheck'' of
               None \<Rightarrow> (Inl (KeyError ''lastCheck''), w')
             | Some v \<Rightarrow>
                 (case time_minus E now v of
                    Inl e \<Rightarrow> (Inl e, w')
                  | Inr elapsed \<Rightarrow>
                      (let secsSinceLast = py_max elapsed (Finite 0)
                       in case py_int (py_min secsSinceLast
                                         (Finite (real_of_int CHECK_INTERVAL))) of
                            Inl e \<Rightarrow> (Inl e, w')
                          | Inr n \<Rightarrow> (Inr (CHECK_INTERVAL - n), w')))))"

definition AutoUpdateChecker_init :: "env \<Rightarrow> pyfloat \<Rightarrow> world \<Rightarrow> error option \<times> world" where
  "AutoUpdateChecker_init E now w =
     (case secsTillNext E now w of
        (Inl e, w') \<Rightarrow> (Some e, w')
      | (Inr secs, w') \<Rightarrow> (None, emit (TimerStart (secs * 1000)) w'))"

definition setNextCheck :: "bool \<Rightarrow> world \<Rightarrow> world" where
  "setNextCheck isRetry w =
     emit (TimerStart ((if isRetry then RETRY_INTERVAL else CHECK_INTERVAL) * 1000))
       (emit TimerStop w)"

section \<open>The update checkers\<close>

text \<open>
  \<open>UpdateChecker\<close> (\<open>AUTO = False\<close>) and \<open>AutoUpdateChecker\<close> (\<open>AUTO = True\<close>) differ in
  \<open>_result\<close> and \<open>_error\<close>; \<open>_bg\<close> is shared.
\<close>

definition checker_result ::
  "bool \<Rightarrow> UpdateInfo option \<Rightarrow> world \<Rightarrow> error option \<times> world" where
  "checker_result AUTO info w =
     (if \<not> AUTO then (None, emit (ResultDialog info False) (emit ProgressDone w))
      else
        (case info of
           None \<Rightarrow> (None, w)
         | Some i \<Rightarrow>
             (case state w ''dontRemindVersion'' of
                None \<Rightarrow> (Some (KeyError ''dontRemindVersion''), w)
              | Some v \<Rightarrow>
                  if PStr (version i) = v then (None, w)
                  else (None, emit (ResultDialog info True) w))))"

definition checker_error :: "bool \<Rightarrow> world \<Rightarrow> world" where
  "checker_error AUTO w =
     (if \<not> AUTO then emit ErrorMessageBox (emit ProgressDone w)
      else setNextCheck True w)"

text \<open>The unique identifier is renewed once a month.\<close>

definition rotate_id :: "env \<Rightarrow> int \<times> int \<Rightarrow> int \<times> int \<Rightarrow> world \<Rightarrow> world" where
  "rotate_id E lastYM nowYM w =
     (if lastYM \<noteq> nowYM
      then w\<lparr>state := (state w)(''id'' \<mapsto> PStr (uuid4_hex E))\<rparr>
      else w)"

text \<open>
  \<open>_bg\<close>. \<open>nowYM\<close> is the year and month of \<open>datetime.now()\<close> at the start, \<open>nowTime\<close> is
  \<open>time.time()\<close> after the check. Any exception of \<open>checkForUpdate\<close> is caught and
  logged; an exception of \<open>datetime.fromtimestamp\<close> or of \<open>_result\<close> is not.
\<close>

definition UpdateChecker_bg ::
  "env \<Rightarrow> bool \<Rightarrow> int \<times> int \<Rightarrow> pyfloat \<Rightarrow> world \<Rightarrow> error option \<times> world" where
  "UpdateChecker_bg E AUTO nowYM nowTime w =
     (case state w ''lastCheck'' of
        None \<Rightarrow> (Some (KeyError ''lastCheck''), w)
      | Some v \<Rightarrow>
          (case fromtimestamp E v of
             Inl e \<Rightarrow> (Some e, w)
           | Inr lastYM \<Rightarrow>
               (let w1 = rotate_id E lastYM nowYM w
                in case checkForUpdate E (state w1) AUTO of
                     Inl e \<Rightarrow>
                       (None, checker_error AUTO
                                (emit (LogDebugWarning ''Error checking for update'') w1))
                   | Inr info \<Rightarrow>
                       (case checker_result AUTO info w1 of
                          (Some e, w2) \<Rightarrow> (Some e, w2)
                        | (None, w2) \<Rightarrow>
                            (let w3 = (case info of
                                         Some i \<Rightarrow>
                                           w2\<lparr>state := (state w2)
                                              (''dontRemindVersion'' \<mapsto> PStr (version i))\<rparr>
                                       | None \<Rightarrow> w2);
                                 w4 = w3\<lparr>state := (state w3)
                                         (''lastCheck'' \<mapsto> PFloat nowTime)\<rparr>;
                                 w5 = saveState E w4
                             in (None, if autoChecker w5 then setNextCheck False w5
                                       else w5))))))"

text \<open>The result dialogs shown to the user.\<close>

definition is_dialog :: "event \<Rightarrow> bool" where
  "is_dialog e = (case e of ResultDialog i a \<Rightarrow> True | _ \<Rightarrow> False)"

section \<open>Startup\<close>

text \<open>
  The sweep of the updates directory in \<open>initialize\<close>: every file but the pending one
  is removed. A failing \<open>os.remove\<close> ends the loop with a warning; a state without
  the key \<open>pendingUpdateFile\<close> raises \<open>KeyError\<close>, which is not caught.
\<close>

fun sweep_files :: "env \<Rightarrow> pystr list \<Rightarrow> world \<Rightarrow> error option \<times> world" where
  "sweep_files E [] w = (None, w)"
| "sweep_files E (f # fs) w =
     (case state w ''pendingUpdateFile'' of
        None \<Rightarrow> (Some (KeyError ''pendingUpdateFile''), w)
      | Some p \<Rightarrow>
          if PStr f \<noteq> p then
            (if removable E f then sweep_files E fs (emit (Removed f) w)
             else (None, emit (LogWarning ''Unable to remove old update file'') w))
          else sweep_files E fs w)"

text \<open>
  When \<open>os.listdir\<close> itself raises \<open>OSError\<close>, the handler formats its message with the
  local variable \<open>f\<close>. The \<open>with open(...) as f\<close> at the start of \<open>initialize\<close> has bound
  it when the state file could be opened (\<open>opened\<close>); then the warning is logged and
  startup goes on. Otherwise \<open>f\<close> is not bound and the handler raises
  \<open>UnboundLocalError\<close>.
\<close>

definition sweep :: "env \<Rightarrow> bool \<Rightarrow> world \<Rightarrow> error option \<times> world" where
  "sweep E opened w =
     (case listdir E of
        None \<Rightarrow>
          if opened then (None, emit (LogWarning ''Unable to remove old update file'') w)
          else (Some UnboundLocalError, w)
      | Some files \<Rightarrow> sweep_files E files w)"

definition default_state :: pydict where
  "default_state = setStateToNone [''lastCheck'' \<mapsto> PInt 0, ''dontRemindVersion'' \<mapsto> PNone]"

definition new_AutoUpdateChecker :: "env \<Rightarrow> pyfloat \<Rightarrow> world \<Rightarrow> error option \<times> world" where
  "new_AutoUpdateChecker E now w =
     (case AutoUpdateChecker_init E now w of
        (Some e, w') \<Rightarrow> (Some e, w')
      | (None, w') \<Rightarrow> (None, w'\<lparr>autoChecker := True\<rparr>))"

text \<open>
  The first part of \<open>initialize\<close>: the state file is loaded (a file that cannot be
  opened or unpickled is logged and gives the defaults, as does a pickled \<open>None\<close>), the
  identifier is created if missing, and the
  pending fields are reset when the key \<open>pendingUpdateVersion\<close> is missing or holds the
  running version.
\<close>

definition load_state :: "env \<Rightarrow> world \<Rightarrow> world" where
  "load_state E w =
     (let w0 = (case stateFile w of
                  Pickled st \<Rightarrow> w\<lparr>state := st\<rparr>
                | PickledNone \<Rightarrow> w\<lparr>state := default_state\<rparr>
                | _ \<Rightarrow> (emit (LogDebugWarning ''Couldn't retrieve update state'') w)
                         \<lparr>state := default_state\<rparr>);
          w1 = (if state w0 ''id'' = None
                then w0\<lparr>state := (state w0)(''id'' \<mapsto> PStr (uuid4_hex E))\<rparr> else w0)
      in if state w1 ''pendingUpdateVersion'' = None \<or>
            state w1 ''pendingUpdateVersion'' = Some (PStr (versionInfo_version E))
         then w1\<lparr>state := setStateToNone (state w1)\<rparr> else w1)"

text \<open>
  \<open>initialize\<close>: after loading, the directory is swept, and the automatic checker is
  created under
  \<open>not launcher and (autoCheck or (startupNotification and isPendingUpdate()))\<close>.
\<close>

definition initialize :: "env \<Rightarrow> pyfloat \<Rightarrow> world \<Rightarrow> error option \<times> world" where
  "initialize E now w =
     (case sweep E (stateFile w \<noteq> NoFile) (load_state E w) of
        (Some e, w3) \<Rightarrow> (Some e, w3)
      | (None, w3) \<Rightarrow>
          if launcher E then (None, w3)
          else if conf_autoCheck E then new_AutoUpdateChecker E now w3
          else if conf_startupNotification E then
            (case isPendingUpdate E w3 of
               (Inl e, w4) \<Rightarrow> (Some e, w4)
             | (Inr pending, w4) \<Rightarrow>
                 if pending then new_AutoUpdateChecker E now w4 else (None, w4))
          else (None, w3))"

text \<open>The four pending fields hold their reset values.\<close>

definition pending_reset :: "pydict \<Rightarrow> bool" where
  "pending_reset st \<longleftrightarrow>
     st ''pendingUpdateFile'' = Some PNone \<and>
     st ''pendingUpdateVersion'' = Some PNone \<and>
     st ''pendingUpdateAPIVersion'' = Some (PVer 0 0 0) \<and>
     st ''pendingUpdateBackCompatToAPIVersion'' = Some (PVer 0 0 0)"

section \<open>The downloader\<close>

text \<open>
  What \<open>urllib.request.urlopen\<close> returns: the status code, the value of
  \<open>int(remote.headers["content-length"])\<close> or the exception it raises, and the bytes
  the server delivers before the end of the stream. \<open>remote_breaks_at\<close> is the number
  of bytes after which the connection breaks: a \<open>read\<close> that starts there raises.
\<close>

record remote =
  remote_code :: int
  remote_content_length :: "error + int"
  remote_body :: "byte list"
  remote_breaks_at :: "nat option"

text \<open>
  The surroundings of a download: the network; the poll of \<open>_shouldCancel\<close> from which
  the flag, set in the GUI thread, reads \<open>True\<close>; whether the destination file can be
  opened for writing, how many bytes it can take, and whether it can be removed;
  \<open>hashlib.sha1\<close>, as the digest of the bytes fed to the hasher; and whether
  \<open>read\<close> of a negative amount returns everything that is left or raises \<open>ValueError\<close>
  (this depends on the version of the library).
\<close>

record net =
  urlopen :: "pystr \<Rightarrow> error + remote"
  cancel_at :: "nat option"
  dest_writable :: bool
  dest_capacity :: "nat option"
  dest_removable :: bool
  sha1_hexdigest :: "byte list \<Rightarrow> pystr"
  read_negative_ok :: bool

text \<open>
  What \<open>_guiExec\<close> is asked to run in the GUI thread, and the calls of the downloader
  to the network, the log and the file system.
\<close>

datatype gui_call = DownloadReport int int | ShowError | DownloadSuccess

datatype dl_event =
    UrlOpen pystr
  | LogDownloadError pystr error
  | GuiExec gui_call
  | RemoveDest

text \<open>
  The \<open>UpdateDownloader\<close>: its mirrors \<open>urls\<close> and \<open>fileHash\<close>, the content of the file
  at \<open>destPath\<close> (\<open>None\<close> when there is no file), the number of times \<open>_shouldCancel\<close>
  has been read, and the calls made so far.
\<close>

record downloader =
  urls :: "pystr list"
  fileHash :: "pystr option"
  destFile :: "byte list option"
  polls :: nat
  trace :: "dl_event list"

definition DOWNLOAD_BLOCK_SIZE :: int where
  "DOWNLOAD_BLOCK_SIZE = 8192"

text \<open>Reading \<open>self._shouldCancel\<close>.\<close>

definition shouldCancel :: "net \<Rightarrow> downloader \<Rightarrow> bool \<times> downloader" where
  "shouldCancel N d =
     ((case cancel_at N of None \<Rightarrow> False | Some n \<Rightarrow> n \<le> polls d),
      d\<lparr>polls := polls d + 1\<rparr>)"

text \<open>
  \<open>_guiExec\<close> hands a call to the GUI thread, which runs it later; the request is
  recorded. The GUI thread acts on the download through \<open>_shouldCancel\<close> only.
\<close>

definition guiExec :: "gui_call \<Rightarrow> downloader \<Rightarrow> downloader" where
  "guiExec c d = d\<lparr>trace := trace d @ [GuiExec c]\<rparr>"

text \<open>
  \<open>remote.read(chunk)\<close> after \<open>offset\<close> bytes, with \<open>stream\<close> still to come: the block
  and the rest of the stream.
\<close>

definition remote_read ::
  "net \<Rightarrow> remote \<Rightarrow> int \<Rightarrow> int \<Rightarrow> byte list \<Rightarrow> error + (byte list \<times> byte list)" where
  "remote_read N rm offset chunk stream =
     (if (case remote_breaks_at rm of None \<Rightarrow> False | Some k \<Rightarrow> int k \<le> offset)
      then Inl ReadError
      else if chunk < 0
      then (if read_negative_ok N then Inr (stream, []) else Inl ValueError)
      else Inr (take (nat chunk) stream, drop (nat chunk) stream))"

text \<open>\<open>local.write(block)\<close>: the disk may be full.\<close>

definition local_write :: "net \<Rightarrow> byte list \<Rightarrow> downloader \<Rightarrow> error + downloader" where
  "local_write N block d =
     (let content = (case destFile d of None \<Rightarrow> [] | Some c \<Rightarrow> c) @ block
      in if (case dest_capacity N of None \<Rightarrow> False | Some k \<Rightarrow> k < length content)
         then Inl OSError
         else Inr (d\<lparr>destFile := Some content\<rparr>))"

text \<open>
  How the loop of \<open>_download\<close> ends: an exception, the \<open>return\<close> on cancellation, or
  the \<open>break\<close> at the end of the stream with the number of bytes read and the bytes
  given to the hasher.
\<close>

datatype loop_end = Raised error | Cancelled | Done int "byte list"

function read_loop ::
  "net \<Rightarrow> remote \<Rightarrow> bool \<Rightarrow> int \<Rightarrow> byte list \<Rightarrow> int \<Rightarrow> int \<Rightarrow> byte list \<Rightarrow> downloader \<Rightarrow>
   loop_end \<times> downloader" where
  "read_loop N rm hashing sz stream read chunk hashed d =
     (case shouldCancel N d of
        (True, d1) \<Rightarrow> (Cancelled, d1)
      | (False, d1) \<Rightarrow>
          (let chunk = (if sz - read < chunk then sz - read else chunk)
           in case remote_read N rm read chunk stream of
                Inl e \<Rightarrow> (Raised e, d1)
              | Inr (block, stream') \<Rightarrow>
                  if block = [] then (Done read hashed, d1)
                  else
                    (case shouldCancel N d1 of
                       (True, d2) \<Rightarrow> (Cancelled, d2)
                     | (False, d2) \<Rightarrow>
                         (case local_write N block d2 of
                            Inl e \<Rightarrow> (Raised e, d2)
                          | Inr d3 \<Rightarrow>
                              read_loop N rm hashing sz stream'
                                (read + int (length block)) chunk
                                (if hashing then hashed @ block else hashed)
                                (guiExec (DownloadReport (read + int (length block)) sz)
                                   d3)))))"
  by pat_completeness auto
termination
  by (relation "measure (\<lambda>(N, rm, hashing, sz, stream, read, chunk, hashed, d). length stream)")
     (auto simp: remote_read_def split: if_splits)

text \<open>
  \<open>_download\<close>: \<open>None\<close> when it returns (the download is complete or was cancelled),
  the exception when it raises.
\<close>

definition UpdateDownloader_download ::
  "net \<Rightarrow> pystr \<Rightarrow> downloader \<Rightarrow> error option \<times> downloader" where
  "UpdateDownloader_download N url d =
     (let d0 = d\<lparr>trace := trace d @ [UrlOpen url]\<rparr>
      in case urlopen N url of
           Inl e \<Rightarrow> (Some e, d0)
         | Inr rm \<Rightarrow>
             if remote_code rm \<noteq> 200 then (Some (DownloadFailedCode (remote_code rm)), d0)
             else
               (case remote_content_length rm of
                  Inl e \<Rightarrow> (Some e, d0)
                | Inr sz \<Rightarrow>
                    if \<not> dest_writable N then (Some OSError, d0)
                    else
                      (let hashing = (case fileHash d of None \<Rightarrow> False | Some h \<Rightarrow> h \<noteq> []);
                           d1 = guiExec (DownloadReport 0 sz) (d0\<lparr>destFile := Some []\<rparr>)
                       in case read_loop N rm hashing sz (remote_body rm) 0
                                 DOWNLOAD_BLOCK_SIZE [] d1 of
                            (Raised e, d2) \<Rightarrow> (Some e, d2)
                          | (Cancelled, d2) \<Rightarrow> (None, d2)
                          | (Done read hashed, d2) \<Rightarrow>
                              if read < sz then (Some ContentTooShort, d2)
                              else if hashing \<and> Some (sha1_hexdigest N hashed) \<noteq> fileHash d
                              then (Some IncorrectFileHash, d2)
                              else (None, guiExec (DownloadReport read sz) d2))))"

text \<open>
  The loop of \<open>_bg\<close> over the mirrors: \<open>None\<close> when it runs to its end (the \<open>else\<close> of the
  \<open>for\<close>), and the value of \<open>success\<close> when it is left by \<open>break\<close>.
\<close>

fun bg_urls :: "net \<Rightarrow> pystr list \<Rightarrow> downloader \<Rightarrow> bool option \<times> downloader" where
  "bg_urls N [] d = (None, d)"
| "bg_urls N (url # rest) d =
     (case UpdateDownloader_download N url d of
        (Some e, d1) \<Rightarrow> bg_urls N rest (d1\<lparr>trace := trace d1 @ [LogDownloadError url e]\<rparr>)
      | (None, d1) \<Rightarrow> (case shouldCancel N d1 of (c, d2) \<Rightarrow> (Some (\<not> c), d2)))"

text \<open>
  \<open>_bg\<close>: the error is reported when no mirror is left; a cancelled download removes
  the file (an \<open>OSError\<close> of \<open>os.remove\<close> is passed over); a complete one goes on to
  \<open>_downloadSuccess\<close>.
\<close>

definition UpdateDownloader_bg :: "net \<Rightarrow> downloader \<Rightarrow> downloader" where
  "UpdateDownloader_bg N d =
     (case bg_urls N (urls d) d of
        (None, d1) \<Rightarrow> guiExec ShowError d1
      | (Some False, d1) \<Rightarrow>
          if dest_removable N \<and> destFile d1 \<noteq> None
          then d1\<lparr>destFile := None, trace := trace d1 @ [RemoveDest]\<rparr>
          else d1
      | (Some True, d1) \<Rightarrow> guiExec DownloadSuccess d1)"

text \<open>
  The mirrors passed to \<open>urlopen\<close>, the mirrors logged as failed, and the calls other
  than progress reports handed to the GUI thread, in the order of a trace.
\<close>

fun attempted :: "dl_event list \<Rightarrow> pystr list" where
  "attempted [] = []"
| "attempted (UrlOpen u # es) = u # attempted es"
| "attempted (e # es) = attempted es"

fun failed :: "dl_event list \<Rightarrow> pystr list" where
  "failed [] = []"
| "failed (LogDownloadError u e # es) = u # failed es"
| "failed (e # es) = failed es"

fun reported :: "dl_event list \<Rightarrow> gui_call list" where
  "reported [] = []"
| "reported (GuiExec (DownloadReport a b) # es) = reported es"
| "reported (GuiExec c # es) = c # reported es"
| "reported (e # es) = reported es"


text \<open>The flag \<open>_shouldCancel\<close> has been read as \<open>True\<close> within the first \<open>p\<close> polls.\<close>

definition cancelled_within :: "net \<Rightarrow> nat \<Rightarrow> bool" where
  "cancelled_within N p = (case cancel_at N of None \<Rightarrow> False | Some k \<Rightarrow> k < p)"

text \<open>The keys of the statistics parameters.\<close>

definition telemetry_keys :: "string list" where
  "telemetry_keys = [''id'', ''language'', ''installed'', ''synthDriver'', ''brailleDisplay'',
     ''outputBrailleTable'']"

section \<open>An environment for the examples\<close>

text \<open>
  A portable copy of version 2024.4 on Windows 10 (64 bit), with eSpeak and no braille
  display, no file on disk, and a server that answers every query with status 200 and
  an empty body. Its clock arithmetic \<open>exact_minus\<close> subtracts finite time stamps
  without rounding.
\<close>

definition exact_minus :: "pyfloat \<Rightarrow> pyval \<Rightarrow> error + pyfloat" where
  "exact_minus now v =
     (case (now, v) of
        (Finite a, PInt n) \<Rightarrow> Inr (Finite (a - real_of_int n))
      | (Finite a, PFloat (Finite b)) \<Rightarrow> Inr (Finite (a - b))
      | _ \<Rightarrow> Inl TypeError)"

definition sample_env :: env where
  "sample_env =
     \<lparr>conf_serverURL = [], conf_allowUsageStats = True, conf_autoCheck = True,
      conf_startupNotification = False, conf_translationTable = str ''en-ueb-g1.ctb'',
      versionInfo_version = str ''2024.4'', versionInfo_updateVersionType = str ''stable'',
      winVersion = \<lparr>major = 10, minor = 0, build = 19045, service_pack_major = 0,
                    service_pack_minor = 0, product_type = 1\<rparr>,
      PROCESSOR_ARCHITEW6432 = Some (str ''AMD64''), language = str ''en'',
      isInstalledCopy = False,
      synthDriver = \<lparr>driver_name = str ''espeak'', driver_addon = None,
                     driver_external = False\<rparr>,
      brailleDisplay = None, appDir = str ''D:/nvda'', appDir_writable = True,
      disableAddons = False, launcher = False, configDir = str ''D:/nvda/userConfig'',
      uuid4_hex = str ''0f1e2d3c'', fromtimestamp = (\<lambda>v. Inr (2024, 11)),
      time_minus = exact_minus, isfile = (\<lambda>p. False), isfile_fd = (\<lambda>n. False),
      listdir = Some [], removable = (\<lambda>p. True),
      stateFile_write = Written,
      fetch = (\<lambda>url params. Inr \<lparr>status_code = 200, content = []\<rparr>)\<rparr>"

text \<open>
  A state as \<open>initialize\<close> leaves it on a first run, and a world with that state in
  memory and on disk.
\<close>

definition sample_state :: pydict where
  "sample_state = default_state(''id'' \<mapsto> PStr (str ''0f1e2d3c''))"

definition sample_world :: world where
  "sample_world =
     \<lparr>state = sample_state, stateFile = Pickled sample_state, autoChecker = False,
      shuttingDown = False, events = []\<rparr>"

text \<open>
  A world whose state file records a downloaded update 2025.1 under a path where no
  file exists (any more).
\<close>

definition stale_state :: pydict where
  "stale_state =
     sample_state(''pendingUpdateFile'' \<mapsto> PStr (str ''D:/nvda/updates/nvda_2025.1.exe''),
                  ''pendingUpdateVersion'' \<mapsto> PStr (str ''2025.1''),
                  ''pendingUpdateAPIVersion'' \<mapsto> PVer 2025 1 0,
                  ''pendingUpdateBackCompatToAPIVersion'' \<mapsto> PVer 2025 1 0)"

definition stale_world :: world where
  "stale_world = sample_world\<lparr>stateFile := Pickled stale_state\<rparr>"

text \<open>
  A descriptor of version 2025.1 with two mirrors, and an environment whose server
  answers every query with the text of that descriptor.
\<close>

definition sample_info :: UpdateInfo where
  "sample_info =
     \<lparr>version = str ''2025.1'',
      launcherUrl = str ''https://a.example/nvda_2025.1.exe https://b.example/nvda_2025.1.exe'',
      apiVersion = str ''2025.1.0'',
      launcherHash = Some (str ''da39a3ee5e6b4b0d3255bfef95601890afd80709''),
      apiCompatTo = Some (str ''2025.1.0''),
      changesUrl = None,
      launcherInteractiveUrl = None\<rparr>"

definition update_env :: env where
  "update_env =
     sample_env\<lparr>fetch := \<lambda>url params.
        Inr \<lparr>status_code = 200, content = map of_nat (response_text sample_info)\<rparr>\<rparr>"

text \<open>
  Three mirrors of a file of four bytes: the first delivers three of the four bytes it
  announces, the second delivers four bytes the last of which is changed, the third
  delivers the file. Any other address cannot be reached. \<open>sample_sha1\<close> is SHA-1 on the
  byte strings of these examples (and the empty string, which is no digest, elsewhere).
\<close>

definition short_remote :: remote where
  "short_remote =
     \<lparr>remote_code = 200, remote_content_length = Inr 4,
      remote_body = [0x4D, 0x5A, 0x90], remote_breaks_at = None\<rparr>"

definition tampered_remote :: remote where
  "tampered_remote =
     \<lparr>remote_code = 200, remote_content_length = Inr 4,
      remote_body = [0x4D, 0x5A, 0x90, 0x01], remote_breaks_at = None\<rparr>"

definition genuine_remote :: remote where
  "genuine_remote =
     \<lparr>remote_code = 200, remote_content_length = Inr 4,
      remote_body = [0x4D, 0x5A, 0x90, 0x00], remote_breaks_at = None\<rparr>"

definition sample_sha1 :: "byte list \<Rightarrow> pystr" where
  "sample_sha1 bs =
     (if bs = [0x4D, 0x5A, 0x90, 0x00] then str ''c7b33ddcc42361fdb847036fc07e880b81935d5d''
      else if bs = [0x4D, 0x5A, 0x90, 0x01] then str ''764a83beef21e0b56e0f2714b026ee7b2e3771a1''
      else if bs = [0x4D, 0x5A, 0x90] then str ''19bf94401f243d24229767920362e96d4037edd6''
      else [])"

definition sample_net :: net where
  "sample_net =
     \<lparr>urlopen = (\<lambda>url.
        if url = str ''https://a.example/nvda.exe'' then Inr short_remote
        else if url = str ''https://b.example/nvda.exe'' then Inr tampered_remote
        else if url = str ''https://c.example/nvda.exe'' then Inr genuine_remote
        else Inl URLError),
      cancel_at = None, dest_writable = True, dest_capacity = None, dest_removable = True,
      sha1_hexdigest = sample_sha1, read_negative_ok = True\<rparr>"

text \<open>A downloader as its constructor leaves it, for a given list of mirrors.\<close>

definition sample_downloader :: "pystr list \<Rightarrow> downloader" where
  "sample_downloader us =
     \<lparr>urls = us, fileHash = Some (str ''c7b33ddcc42361fdb847036fc07e880b81935d5d''),
      destFile = Some [], polls = 0, trace = []\<rparr>"


section \<open>Properties of the parser\<close>


lemma split_once_Some_decomp:
  "split_once s l = Some (k, v) \<Longrightarrow> l = k @ s @ v"
proof (induction l arbitrary: k)
  case Nil
  then show ?case by simp
next
  case (Cons c cs)
  show ?case
  proof (cases "prefix s (c # cs)")
    case True
    with Cons.prems have "k = []" and "v = drop (length s) (c # cs)" by auto
    moreover from True obtain r where "c # cs = s @ r" by (auto simp: prefix_def)
    ultimately show ?thesis by simp
  next
    case False
    with Cons.prems obtain k' where "split_once s cs = Some (k', v)" and "k = c # k'"
      by (auto split: option.splits)
    with Cons.IH show ?thesis by simp
  qed
qed

lemma split_once_None_iff:
  "s \<noteq> [] \<Longrightarrow> split_once s l = None \<longleftrightarrow> \<not> sublist s l"
proof (induction l)
  case Nil
  then show ?case by simp
next
  case (Cons c cs)
  then show ?case
    by (auto simp: sublist_Cons_right split: option.splits)
qed

lemma sep_nonempty: "sep \<noteq> []"
  by (simp add: sep_def str_def)

lemma records_Cons:
  "records (l # ls) = (case split_once sep l of None \<Rightarrow> records ls | Some kv \<Rightarrow> kv # records ls)"
  by (simp add: records_def List.map_filter_simps split: option.splits)

lemma parse_lines_wellformed:
  "\<forall>l\<in>set ls. sublist sep l \<Longrightarrow>
   parse_lines ls md = Inr (md ++ (map_of (rev (records ls)) |` set knownKeys))"
proof (induction ls arbitrary: md)
  case Nil
  then show ?case by (simp add: records_def List.map_filter_simps)
next
  case (Cons l ls)
  from Cons.prems have "split_once sep l \<noteq> None"
    using split_once_None_iff [OF sep_nonempty] by simp
  then obtain k v where kv: "split_once sep l = Some (k, v)" by auto
  from Cons.prems have rest: "\<forall>l\<in>set ls. sublist sep l" by simp
  have "parse_lines (l # ls) md =
        parse_lines ls (if k \<in> set knownKeys then md(k \<mapsto> v) else md)"
    using kv by simp
  also have "\<dots> = Inr ((if k \<in> set knownKeys then md(k \<mapsto> v) else md) ++
                      (map_of (rev (records ls)) |` set knownKeys))"
    by (rule Cons.IH [OF rest])
  also have "(if k \<in> set knownKeys then md(k \<mapsto> v) else md) ++
               (map_of (rev (records ls)) |` set knownKeys) =
             md ++ (map_of (rev (records (l # ls))) |` set knownKeys)"
    by (rule ext) (auto simp: records_Cons kv map_add_def restrict_map_def split: option.splits)
  finally show ?case .
qed

lemma parse_lines_malformed:
  "\<forall>l\<in>set ls1. sublist sep l \<Longrightarrow> \<not> sublist sep l \<Longrightarrow>
   parse_lines (ls1 @ l # ls2) md = Inl (InvalidLineFormat l)"
proof (induction ls1 arbitrary: md)
  case Nil
  then show ?case using split_once_None_iff [OF sep_nonempty, of l] by simp
next
  case (Cons a ls1)
  from Cons.prems have "split_once sep a \<noteq> None"
    using split_once_None_iff [OF sep_nonempty] by simp
  then obtain k v where "split_once sep a = Some (k, v)" by auto
  with Cons show ?case by simp
qed

lemma parse_lines_unknown_key:
  "split_once sep l = Some (k, v) \<Longrightarrow> k \<notin> set knownKeys \<Longrightarrow>
   parse_lines (ls1 @ l # ls2) md = parse_lines (ls1 @ ls2) md"
  by (induction ls1 arbitrary: md) (auto split: option.splits)


lemma splitlines_from_other:
  "\<not> is_linebreak c \<Longrightarrow> splitlines_from cur (c # cs) = splitlines_from (cur @ [c]) cs"
  by (cases cs) (auto simp: is_linebreak_def)

lemma splitlines_from_LF:
  "splitlines_from cur (0x0A # cs) = cur # splitlines_from [] cs"
  by (cases cs) (auto simp: is_linebreak_def)

lemma splitlines_from_line:
  "one_line s \<Longrightarrow> splitlines_from cur (s @ 0x0A # rest) = (cur @ s) # splitlines_from [] rest"
proof (induction s arbitrary: cur)
  case Nil
  show ?case using splitlines_from_LF [of cur rest] by simp
next
  case (Cons c s)
  then have c: "\<not> is_linebreak c" and s: "one_line s" by (simp_all add: one_line_def)
  show ?case using splitlines_from_other [OF c] Cons.IH [OF s] by simp
qed

lemma split_once_key:
  "0x3A \<notin> set k \<Longrightarrow> split_once sep (k @ sep @ v) = Some (k, v)"
  by (induction k) (auto simp: sep_def str_def)

lemma one_line_key: "one_line (str k @ sep @ v) \<longleftrightarrow> one_line (str k) \<and> one_line v"
  by (auto simp: one_line_def sep_def str_def is_linebreak_def)

lemma splitlines_from_field:
  assumes "one_line (str k)" "one_line v"
  shows "splitlines_from [] (field_line k v @ rest) = (str k @ sep @ v) # splitlines_from [] rest"
proof -
  have "one_line (str k @ sep @ v)" using assms by (simp add: one_line_key)
  from splitlines_from_line [OF this, of "[]" rest] show ?thesis by (simp add: field_line_def)
qed

lemma splitlines_from_opt:
  assumes "one_line (str k)" "opt_one_line v"
  shows "splitlines_from [] (opt_line k v @ rest) =
         (case v of None \<Rightarrow> [] | Some x \<Rightarrow> [str k @ sep @ x]) @ splitlines_from [] rest"
  using assms splitlines_from_field [of k _ rest]
  by (cases v) (simp_all add: opt_line_def opt_one_line_def)

lemma parse_lines_known:
  "0x3A \<notin> set k \<Longrightarrow> k \<in> set knownKeys \<Longrightarrow>
   parse_lines ((k @ sep @ v) # ls) md = parse_lines ls (md(k \<mapsto> v))"
  by (simp add: split_once_key)

lemma parse_lines_opt:
  "0x3A \<notin> set k \<Longrightarrow> k \<in> set knownKeys \<Longrightarrow>
   parse_lines ((case x of None \<Rightarrow> [] | Some v \<Rightarrow> [k @ sep @ v]) @ ls) md =
   parse_lines ls (case x of None \<Rightarrow> md | Some v \<Rightarrow> md(k \<mapsto> v))"
  by (cases x) (simp_all add: split_once_key)

lemma key_facts:
  "one_line (str ''version'')" "one_line (str ''launcherUrl'')" "one_line (str ''apiVersion'')"
  "one_line (str ''launcherHash'')" "one_line (str ''apiCompatTo'')" "one_line (str ''changesUrl'')"
  "one_line (str ''launcherInteractiveUrl'')"
  "0x3A \<notin> set (str ''version'')" "0x3A \<notin> set (str ''launcherUrl'')"
  "0x3A \<notin> set (str ''apiVersion'')" "0x3A \<notin> set (str ''launcherHash'')"
  "0x3A \<notin> set (str ''apiCompatTo'')" "0x3A \<notin> set (str ''changesUrl'')"
  "0x3A \<notin> set (str ''launcherInteractiveUrl'')"
  "str ''version'' \<in> set knownKeys" "str ''launcherUrl'' \<in> set knownKeys"
  "str ''apiVersion'' \<in> set knownKeys" "str ''launcherHash'' \<in> set knownKeys"
  "str ''apiCompatTo'' \<in> set knownKeys" "str ''changesUrl'' \<in> set knownKeys"
  "str ''launcherInteractiveUrl'' \<in> set knownKeys"
  by (simp_all add: one_line_def str_def is_linebreak_def knownKeys_def)

lemma splitlines_response_text:
  assumes "single_line_fields d"
  shows "splitlines (response_text d) =
     [str ''version'' @ sep @ version d, str ''launcherUrl'' @ sep @ launcherUrl d,
      str ''apiVersion'' @ sep @ apiVersion d] @
     (case launcherHash d of None \<Rightarrow> [] | Some x \<Rightarrow> [str ''launcherHash'' @ sep @ x]) @
     (case apiCompatTo d of None \<Rightarrow> [] | Some x \<Rightarrow> [str ''apiCompatTo'' @ sep @ x]) @
     (case changesUrl d of None \<Rightarrow> [] | Some x \<Rightarrow> [str ''changesUrl'' @ sep @ x]) @
     (case launcherInteractiveUrl d of None \<Rightarrow> [] | Some x \<Rightarrow> [str ''launcherInteractiveUrl'' @ sep @ x])"
proof -
  from assms have a: "one_line (version d)" "one_line (launcherUrl d)" "one_line (apiVersion d)"
    "opt_one_line (launcherHash d)" "opt_one_line (apiCompatTo d)"
    "opt_one_line (changesUrl d)" "opt_one_line (launcherInteractiveUrl d)"
    by (simp_all add: single_line_fields_def)
  have last: "splitlines_from [] (opt_line ''launcherInteractiveUrl'' (launcherInteractiveUrl d)) =
     (case launcherInteractiveUrl d of None \<Rightarrow> [] | Some x \<Rightarrow> [str ''launcherInteractiveUrl'' @ sep @ x])"
    using splitlines_from_opt [OF key_facts(7) a(7), of "[]"] by simp
  show ?thesis
    unfolding splitlines_def response_text_def
    by (simp only: splitlines_from_field [OF key_facts(1) a(1)]
        splitlines_from_field [OF key_facts(2) a(2)]
        splitlines_from_field [OF key_facts(3) a(3)]
        splitlines_from_opt [OF key_facts(4) a(4)]
        splitlines_from_opt [OF key_facts(5) a(5)]
        splitlines_from_opt [OF key_facts(6) a(6)] last append.simps)
qed

lemma str_eq_iff: "str a = str b \<longleftrightarrow> a = b"
  unfolding str_def by (rule inj_map_eq_map) (simp add: inj_on_def)

lemma key_neq:
  "str ''version'' \<noteq> str ''launcherUrl''" "str ''version'' \<noteq> str ''apiVersion''"
  "str ''version'' \<noteq> str ''launcherHash''" "str ''version'' \<noteq> str ''apiCompatTo''"
  "str ''version'' \<noteq> str ''changesUrl''" "str ''version'' \<noteq> str ''launcherInteractiveUrl''"
  "str ''launcherUrl'' \<noteq> str ''apiVersion''" "str ''launcherUrl'' \<noteq> str ''launcherHash''"
  "str ''launcherUrl'' \<noteq> str ''apiCompatTo''" "str ''launcherUrl'' \<noteq> str ''changesUrl''"
  "str ''launcherUrl'' \<noteq> str ''launcherInteractiveUrl''"
  "str ''apiVersion'' \<noteq> str ''launcherHash''" "str ''apiVersion'' \<noteq> str ''apiCompatTo''"
  "str ''apiVersion'' \<noteq> str ''changesUrl''" "str ''apiVersion'' \<noteq> str ''launcherInteractiveUrl''"
  "str ''launcherHash'' \<noteq> str ''apiCompatTo''" "str ''launcherHash'' \<noteq> str ''changesUrl''"
  "str ''launcherHash'' \<noteq> str ''launcherInteractiveUrl''"
  "str ''apiCompatTo'' \<noteq> str ''changesUrl''" "str ''apiCompatTo'' \<noteq> str ''launcherInteractiveUrl''"
  "str ''changesUrl'' \<noteq> str ''launcherInteractiveUrl''"
  by (simp_all add: str_eq_iff)

lemma response_map_lookup:
  "response_map d (str ''version'') = Some (version d)"
  "response_map d (str ''launcherUrl'') = Some (launcherUrl d)"
  "response_map d (str ''apiVersion'') = Some (apiVersion d)"
  "response_map d (str ''launcherHash'') = launcherHash d"
  "response_map d (str ''apiCompatTo'') = apiCompatTo d"
  "response_map d (str ''changesUrl'') = changesUrl d"
  "response_map d (str ''launcherInteractiveUrl'') = launcherInteractiveUrl d"
  by (simp_all add: response_map_def Let_def key_neq key_neq [symmetric] split: option.splits)

lemma parse_response_text:
  assumes "single_line_fields d"
  shows "parseUpdateCheckResponse (response_text d) = Inr d"
proof -
  have "parse_lines (splitlines (response_text d)) Map.empty = Inr (response_map d)"
    unfolding splitlines_response_text [OF assms] response_map_def Let_def
    apply (simp only: append.simps parse_lines_known [OF key_facts(8) key_facts(15)]
       parse_lines_known [OF key_facts(9) key_facts(16)]
       parse_lines_known [OF key_facts(10) key_facts(17)]
       parse_lines_opt [OF key_facts(11) key_facts(18)]
       parse_lines_opt [OF key_facts(12) key_facts(19)]
       parse_lines_opt [OF key_facts(13) key_facts(20)])
    using parse_lines_opt [OF key_facts(14) key_facts(21), of "launcherInteractiveUrl d" "[]"]
    apply (simp only: append_Nil2 parse_lines.simps)
    done
  then show ?thesis
    unfolding parseUpdateCheckResponse_def
    by (simp add: requiredKeys_def construct_def response_map_lookup)
qed


lemma parse_lines_lookup:
  assumes "\<forall>l\<in>set (splitlines data). sublist sep l"
  shows "\<exists>md. parse_lines (splitlines data) Map.empty = Inr md \<and>
              (\<forall>k\<in>set knownKeys. md k = last_value data k)"
  using parse_lines_wellformed [OF assms, of Map.empty]
  by (simp add: last_value_def restrict_map_def)

lemma required_known: "set requiredKeys \<subseteq> set knownKeys"
  by (simp add: requiredKeys_def knownKeys_def)

text \<open>
  Claim C1. \<open>parseUpdateCheckResponse\<close>, on the lines \<open>splitlines\<close> cuts the text into:
  \<^item> when every line contains the separator \<open>": "\<close> and the three required keys occur, the
    parse succeeds, and every field of the descriptor is the value of the last record
    with that key (an optional field without a record is \<open>None\<close>);
  \<^item> the text written for a descriptor whose fields hold no line boundary parses back
    to that descriptor;
  \<^item> when every line contains the separator and a required key has no record, the
    parse fails with \<open>MissingRequiredKeys\<close> listing exactly the required keys without
    a record;
  \<^item> the first line without the separator fails the whole parse with that line;
  \<^item> removing a line whose key is unknown does not change the result.
\<close>
theorem parseUpdateCheckResponse_spec:
  "((\<forall>l\<in>set (splitlines data). sublist sep l) \<and>
      last_value data (str ''version'') = Some v \<and>
      last_value data (str ''launcherUrl'') = Some u \<and>
      last_value data (str ''apiVersion'') = Some a \<longrightarrow>
      parseUpdateCheckResponse data =
        Inr \<lparr>version = v, launcherUrl = u, apiVersion = a,
             launcherHash = last_value data (str ''launcherHash''),
             apiCompatTo = last_value data (str ''apiCompatTo''),
             changesUrl = last_value data (str ''changesUrl''),
             launcherInteractiveUrl = last_value data (str ''launcherInteractiveUrl'')\<rparr>) \<and>
   (single_line_fields d \<longrightarrow> parseUpdateCheckResponse (response_text d) = Inr d) \<and>
   ((\<forall>l\<in>set (splitlines data). sublist sep l) \<and>
      (\<exists>k\<in>set requiredKeys. last_value data k = None) \<longrightarrow>
      (\<exists>ks. parseUpdateCheckResponse data = Inl (MissingRequiredKeys ks) \<and> distinct ks \<and>
            set ks = {k \<in> set requiredKeys. last_value data k = None})) \<and>
   (splitlines data = pre @ bad # post \<and> (\<forall>l\<in>set pre. sublist sep l) \<and> \<not> sublist sep bad \<longrightarrow>
      parseUpdateCheckResponse data = Inl (InvalidLineFormat bad)) \<and>
   (splitlines data = pre @ line # post \<and> splitlines data' = pre @ post \<and>
      split_once sep line = Some (key, val) \<and> key \<notin> set knownKeys \<longrightarrow>
      parseUpdateCheckResponse data = parseUpdateCheckResponse data')"
proof (intro conjI impI)
  assume h: "(\<forall>l\<in>set (splitlines data). sublist sep l) \<and>
      last_value data (str ''version'') = Some v \<and>
      last_value data (str ''launcherUrl'') = Some u \<and>
      last_value data (str ''apiVersion'') = Some a"
  then obtain md where md: "parse_lines (splitlines data) Map.empty = Inr md"
    and look: "\<forall>k\<in>set knownKeys. md k = last_value data k"
    using parse_lines_lookup by blast
  have l: "md (str ''version'') = Some v" "md (str ''launcherUrl'') = Some u"
    "md (str ''apiVersion'') = Some a"
    "md (str ''launcherHash'') = last_value data (str ''launcherHash'')"
    "md (str ''apiCompatTo'') = last_value data (str ''apiCompatTo'')"
    "md (str ''changesUrl'') = last_value data (str ''changesUrl'')"
    "md (str ''launcherInteractiveUrl'') = last_value data (str ''launcherInteractiveUrl'')"
    using look h key_facts(15-21) by simp_all
  show "parseUpdateCheckResponse data =
        Inr \<lparr>version = v, launcherUrl = u, apiVersion = a,
             launcherHash = last_value data (str ''launcherHash''),
             apiCompatTo = last_value data (str ''apiCompatTo''),
             changesUrl = last_value data (str ''changesUrl''),
             launcherInteractiveUrl = last_value data (str ''launcherInteractiveUrl'')\<rparr>"
    unfolding parseUpdateCheckResponse_def md
    by (simp add: requiredKeys_def construct_def l)
next
  assume "single_line_fields d"
  then show "parseUpdateCheckResponse (response_text d) = Inr d"
    by (rule parse_response_text)
next
  assume h: "(\<forall>l\<in>set (splitlines data). sublist sep l) \<and>
      (\<exists>k\<in>set requiredKeys. last_value data k = None)"
  then obtain md where md: "parse_lines (splitlines data) Map.empty = Inr md"
    and look: "\<forall>k\<in>set knownKeys. md k = last_value data k"
    using parse_lines_lookup by blast
  let ?ks = "filter (\<lambda>k. md k = None) requiredKeys"
  have eq: "set ?ks = {k \<in> set requiredKeys. last_value data k = None}"
    using look required_known by auto
  with h have "?ks \<noteq> []" by (metis (mono_tags, lifting) empty_iff mem_Collect_eq set_empty)
  then have "parseUpdateCheckResponse data = Inl (MissingRequiredKeys ?ks)"
    unfolding parseUpdateCheckResponse_def md by simp
  moreover have "distinct ?ks"
    by (simp add: requiredKeys_def str_eq_iff)
  ultimately show "\<exists>ks. parseUpdateCheckResponse data = Inl (MissingRequiredKeys ks) \<and> distinct ks \<and>
            set ks = {k \<in> set requiredKeys. last_value data k = None}"
    using eq by blast
next
  assume "splitlines data = pre @ bad # post \<and> (\<forall>l\<in>set pre. sublist sep l) \<and> \<not> sublist sep bad"
  then show "parseUpdateCheckResponse data = Inl (InvalidLineFormat bad)"
    unfolding parseUpdateCheckResponse_def
    by (simp add: parse_lines_malformed)
next
  assume "splitlines data = pre @ line # post \<and> splitlines data' = pre @ post \<and>
      split_once sep line = Some (key, val) \<and> key \<notin> set knownKeys"
  then show "parseUpdateCheckResponse data = parseUpdateCheckResponse data'"
    unfolding parseUpdateCheckResponse_def
    by (simp add: parse_lines_unknown_key)
qed


lemma sublist_split_once: "s \<noteq> [] \<Longrightarrow> sublist s l \<longleftrightarrow> split_once s l \<noteq> None"
  using split_once_None_iff [of s l] by simp

lemmas eval_text = splitlines_def str_def is_linebreak_def sep_def sublist_split_once
  last_value_def records_def List.map_filter_simps knownKeys_def requiredKeys_def

theorem parseUpdateCheckResponse_spec_witness:
  "parseUpdateCheckResponse
     (str ''version: 1'' @ [0x0A] @ str ''launcherUrl: u'' @ [0x0D, 0x0A] @
      str ''apiVersion: 2'' @ [0x0A] @ str ''version: 3'') =
     Inr \<lparr>version = str ''3'', launcherUrl = str ''u'', apiVersion = str ''2'',
          launcherHash = None, apiCompatTo = None, changesUrl = None,
          launcherInteractiveUrl = None\<rparr> \<and>
   parseUpdateCheckResponse
     (response_text \<lparr>version = str ''1'', launcherUrl = str ''u v'', apiVersion = str ''2'',
          launcherHash = Some (str ''ab''), apiCompatTo = None, changesUrl = None,
          launcherInteractiveUrl = None\<rparr>) =
     Inr \<lparr>version = str ''1'', launcherUrl = str ''u v'', apiVersion = str ''2'',
          launcherHash = Some (str ''ab''), apiCompatTo = None, changesUrl = None,
          launcherInteractiveUrl = None\<rparr> \<and>
   (\<exists>ks. parseUpdateCheckResponse (str ''version: 1'' @ [0x0A]) = Inl (MissingRequiredKeys ks) \<and>
         set ks = {str ''launcherUrl'', str ''apiVersion''}) \<and>
   parseUpdateCheckResponse (str ''version: 1'' @ [0x0A] @ str ''bad'' @ [0x0A]) =
     Inl (InvalidLineFormat (str ''bad'')) \<and>
   parseUpdateCheckResponse
     (str ''version: 1'' @ [0x0A] @ str ''foo: x'' @ [0x0A] @ str ''launcherUrl: u'') =
   parseUpdateCheckResponse (str ''version: 1'' @ [0x0A] @ str ''launcherUrl: u'')"
proof -
  let ?d1 = "str ''version: 1'' @ [0x0A] @ str ''launcherUrl: u'' @ [0x0D, 0x0A] @
      str ''apiVersion: 2'' @ [0x0A] @ str ''version: 3''"
  let ?i2 = "\<lparr>version = str ''1'', launcherUrl = str ''u v'', apiVersion = str ''2'',
          launcherHash = Some (str ''ab''), apiCompatTo = None, changesUrl = None,
          launcherInteractiveUrl = None\<rparr>"
  let ?d3 = "str ''version: 1'' @ [0x0A]"
  let ?d4 = "str ''version: 1'' @ [0x0A] @ str ''bad'' @ [0x0A]"
  let ?d5 = "str ''version: 1'' @ [0x0A] @ str ''foo: x'' @ [0x0A] @ str ''launcherUrl: u''"
  let ?d5' = "str ''version: 1'' @ [0x0A] @ str ''launcherUrl: u''"
  have h1: "(\<forall>l\<in>set (splitlines ?d1). sublist sep l) \<and>
      last_value ?d1 (str ''version'') = Some (str ''3'') \<and>
      last_value ?d1 (str ''launcherUrl'') = Some (str ''u'') \<and>
      last_value ?d1 (str ''apiVersion'') = Some (str ''2'')"
    by (simp add: eval_text)
  have o1: "last_value ?d1 (str ''launcherHash'') = None"
    "last_value ?d1 (str ''apiCompatTo'') = None"
    "last_value ?d1 (str ''changesUrl'') = None"
    "last_value ?d1 (str ''launcherInteractiveUrl'') = None"
    by (simp_all add: eval_text)
  have h2: "single_line_fields ?i2"
    by (simp add: single_line_fields_def one_line_def opt_one_line_def str_def is_linebreak_def)
  have h3: "(\<forall>l\<in>set (splitlines ?d3). sublist sep l) \<and>
      (\<exists>k\<in>set requiredKeys. last_value ?d3 k = None)"
    by (simp add: eval_text)
  have s3: "{k \<in> set requiredKeys. last_value ?d3 k = None} = {str ''launcherUrl'', str ''apiVersion''}"
    by (auto simp: eval_text)
  have h4: "splitlines ?d4 = [str ''version: 1''] @ str ''bad'' # [] \<and>
      (\<forall>l\<in>set [str ''version: 1'']. sublist sep l) \<and> \<not> sublist sep (str ''bad'')"
    by (simp add: eval_text)
  have h5: "splitlines ?d5 = [str ''version: 1''] @ str ''foo: x'' # [str ''launcherUrl: u''] \<and>
      splitlines ?d5' = [str ''version: 1''] @ [str ''launcherUrl: u''] \<and>
      split_once sep (str ''foo: x'') = Some (str ''foo'', str ''x'') \<and>
      str ''foo'' \<notin> set knownKeys"
    by (simp add: eval_text)
  note T1 = parseUpdateCheckResponse_spec [where data = ?d1 and v = "str ''3''" and u = "str ''u''"
      and a = "str ''2''" and d = ?i2]
  note T3 = parseUpdateCheckResponse_spec [where data = ?d3]
  note T4 = parseUpdateCheckResponse_spec [where data = ?d4 and pre = "[str ''version: 1'']"
      and bad = "str ''bad''" and post = "[]"]
  note T5 = parseUpdateCheckResponse_spec [where data = ?d5 and pre = "[str ''version: 1'']"
      and line = "str ''foo: x''" and post = "[str ''launcherUrl: u'']" and data' = ?d5'
      and key = "str ''foo''" and val = "str ''x''"]
  from T1 h1 o1 have c1: "parseUpdateCheckResponse ?d1 =
     Inr \<lparr>version = str ''3'', launcherUrl = str ''u'', apiVersion = str ''2'',
          launcherHash = None, apiCompatTo = None, changesUrl = None,
          launcherInteractiveUrl = None\<rparr>" by simp
  from T1 h2 have c2: "parseUpdateCheckResponse (response_text ?i2) = Inr ?i2" by blast
  from T3 [THEN conjunct2, THEN conjunct2, THEN conjunct1, rule_format, OF h3]
  obtain ks where "parseUpdateCheckResponse ?d3 = Inl (MissingRequiredKeys ks)"
    and "set ks = {k \<in> set requiredKeys. last_value ?d3 k = None}" by blast
  with s3 have c3: "\<exists>ks. parseUpdateCheckResponse ?d3 = Inl (MissingRequiredKeys ks) \<and>
         set ks = {str ''launcherUrl'', str ''apiVersion''}" by simp
  from T4 h4 have c4: "parseUpdateCheckResponse ?d4 = Inl (InvalidLineFormat (str ''bad''))" by blast
  from T5 h5 have c5: "parseUpdateCheckResponse ?d5 = parseUpdateCheckResponse ?d5'" by blast
  from c1 c2 c3 c4 c5 show ?thesis by blast
qed


section \<open>Properties of the query client\<close>

lemma checkForUpdate_params_plain:
  assumes "\<not> (auto \<and> conf_allowUsageStats E)"
    and "checkForUpdate_params E st auto = Inr params"
  shows "map fst params = [''autoCheck'', ''allowUsageStats'', ''version'', ''versionType'',
           ''osVersion'', ''x64'', ''osArchitecture'']"
  using assms
  by (auto simp: checkForUpdate_params_def Let_def split: sum.splits)

lemma dict_update_extraParams:
  "map fst (dict_update
     [(''autoCheck'', a), (''allowUsageStats'', b), (''version'', c), (''versionType'', d),
      (''osVersion'', e), (''x64'', f), (''osArchitecture'', g)] (extraParams E i)) =
   [''autoCheck'', ''allowUsageStats'', ''version'', ''versionType'', ''osVersion'', ''x64'',
    ''osArchitecture'', ''id'', ''language'', ''installed'', ''synthDriver'', ''brailleDisplay'',
    ''outputBrailleTable'']"
  by (simp add: extraParams_def)

lemma checkForUpdate_params_stats:
  assumes "auto \<and> conf_allowUsageStats E"
    and "checkForUpdate_params E st auto = Inr params"
  shows "map fst params = [''autoCheck'', ''allowUsageStats'', ''version'', ''versionType'',
           ''osVersion'', ''x64'', ''osArchitecture'', ''id'', ''language'', ''installed'',
           ''synthDriver'', ''brailleDisplay'', ''outputBrailleTable'']"
  using assms
  by (auto simp: checkForUpdate_params_def Let_def dict_update_extraParams
      split: sum.splits option.splits)

lemma checkForUpdate_params_independent:
  assumes "\<not> (auto \<and> conf_allowUsageStats E)"
  shows "checkForUpdate_params
           (E\<lparr>language := l, isInstalledCopy := i, synthDriver := s, brailleDisplay := b,
              conf_translationTable := t\<rparr>) st' auto =
         checkForUpdate_params E st auto"
  using assms by (auto simp: checkForUpdate_params_def Let_def split: sum.splits)

text \<open>
  Claim C7. When \<open>auto\<close> is false or usage statistics are not allowed, the parameters of
  the query hold none of the statistics keys (\<open>id\<close>, \<open>language\<close>, \<open>installed\<close>,
  \<open>synthDriver\<close>, \<open>brailleDisplay\<close>, \<open>outputBrailleTable\<close>), and they are the same
  whatever the identifier, the language, the kind of copy, the drivers and the braille
  table are; when both conditions hold, all six keys are sent.
\<close>
theorem checkForUpdate_telemetry:
  "(\<not> (auto \<and> conf_allowUsageStats E) \<longrightarrow>
      (\<forall>params. checkForUpdate_params E st auto = Inr params \<longrightarrow>
         set telemetry_keys \<inter> fst ` set params = {}) \<and>
      checkForUpdate_params
        (E\<lparr>language := l, isInstalledCopy := i, synthDriver := s, brailleDisplay := b,
           conf_translationTable := t\<rparr>) st' auto =
      checkForUpdate_params E st auto) \<and>
   (auto \<and> conf_allowUsageStats E \<longrightarrow>
      (\<forall>params. checkForUpdate_params E st auto = Inr params \<longrightarrow>
         set telemetry_keys \<subseteq> fst ` set params))"
proof (intro conjI impI allI)
  fix params
  assume "\<not> (auto \<and> conf_allowUsageStats E)" "checkForUpdate_params E st auto = Inr params"
  from checkForUpdate_params_plain [OF this]
  have "fst ` set params = set [''autoCheck'', ''allowUsageStats'', ''version'', ''versionType'',
           ''osVersion'', ''x64'', ''osArchitecture'']"
    by (metis set_map)
  then show "set telemetry_keys \<inter> fst ` set params = {}"
    by (simp add: telemetry_keys_def)
next
  assume "\<not> (auto \<and> conf_allowUsageStats E)"
  then show "checkForUpdate_params
        (E\<lparr>language := l, isInstalledCopy := i, synthDriver := s, brailleDisplay := b,
           conf_translationTable := t\<rparr>) st' auto =
      checkForUpdate_params E st auto"
    by (rule checkForUpdate_params_independent)
next
  fix params
  assume "auto \<and> conf_allowUsageStats E" "checkForUpdate_params E st auto = Inr params"
  from checkForUpdate_params_stats [OF this]
  have "fst ` set params = set [''autoCheck'', ''allowUsageStats'', ''version'', ''versionType'',
           ''osVersion'', ''x64'', ''osArchitecture'', ''id'', ''language'', ''installed'',
           ''synthDriver'', ''brailleDisplay'', ''outputBrailleTable'']"
    by (metis set_map)
  then show "set telemetry_keys \<subseteq> fst ` set params"
    by (simp add: telemetry_keys_def)
qed

lemma winVersionText_sample:
  "winVersionText (winVersion sample_env) = Inr (str ''10.0.19045 workstation'')"
  by (simp add: winVersionText_def sample_env_def tuple_index_def str_of_nat.simps str_def)

lemma params_sample_manual:
  "checkForUpdate_params sample_env Map.empty False =
     Inr [(''autoCheck'', PBool False), (''allowUsageStats'', PBool True),
          (''version'', PStr (str ''2024.4'')), (''versionType'', PStr (str ''stable'')),
          (''osVersion'', PStr (str ''10.0.19045 workstation'')), (''x64'', PBool True),
          (''osArchitecture'', PStr (str ''AMD64''))]"
  by (simp add: checkForUpdate_params_def winVersionText_sample) (simp add: sample_env_def)

lemma params_sample_auto:
  "checkForUpdate_params sample_env [''id'' \<mapsto> PStr (str ''abc'')] True =
     Inr [(''autoCheck'', PBool True), (''allowUsageStats'', PBool True),
          (''version'', PStr (str ''2024.4'')), (''versionType'', PStr (str ''stable'')),
          (''osVersion'', PStr (str ''10.0.19045 workstation'')), (''x64'', PBool True),
          (''osArchitecture'', PStr (str ''AMD64'')), (''id'', PStr (str ''abc'')),
          (''language'', PStr (str ''en'')), (''installed'', PBool False),
          (''synthDriver'', PStr (str ''espeak (core)'')), (''brailleDisplay'', PNone),
          (''outputBrailleTable'', PNone)]"
  by (simp add: checkForUpdate_params_def winVersionText_sample)
     (simp add: sample_env_def extraParams_def getQualifiedDriverClassNameForStats_def str_def)


theorem checkForUpdate_telemetry_witness:
  "set telemetry_keys \<inter>
     fst ` set [(''autoCheck'', PBool False), (''allowUsageStats'', PBool True),
          (''version'', PStr (str ''2024.4'')), (''versionType'', PStr (str ''stable'')),
          (''osVersion'', PStr (str ''10.0.19045 workstation'')), (''x64'', PBool True),
          (''osArchitecture'', PStr (str ''AMD64''))] = {} \<and>
   checkForUpdate_params
     (sample_env\<lparr>language := str ''fr'', isInstalledCopy := True,
        synthDriver := \<lparr>driver_name = str ''oneCore'', driver_addon = None,
                         driver_external = False\<rparr>,
        brailleDisplay := None, conf_translationTable := str ''fr-bfu-comp8.utb''\<rparr>)
     [''id'' \<mapsto> PStr (str ''abc'')] False =
   checkForUpdate_params sample_env Map.empty False \<and>
   set telemetry_keys \<subseteq>
     fst ` set [(''autoCheck'', PBool True), (''allowUsageStats'', PBool True),
          (''version'', PStr (str ''2024.4'')), (''versionType'', PStr (str ''stable'')),
          (''osVersion'', PStr (str ''10.0.19045 workstation'')), (''x64'', PBool True),
          (''osArchitecture'', PStr (str ''AMD64'')), (''id'', PStr (str ''abc'')),
          (''language'', PStr (str ''en'')), (''installed'', PBool False),
          (''synthDriver'', PStr (str ''espeak (core)'')), (''brailleDisplay'', PNone),
          (''outputBrailleTable'', PNone)]"
proof -
  have manual: "\<not> (False \<and> conf_allowUsageStats sample_env)" by simp
  have auto: "True \<and> conf_allowUsageStats sample_env" by (simp add: sample_env_def)
  note M = checkForUpdate_telemetry [where auto = False and E = sample_env
      and st = Map.empty and st' = "[''id'' \<mapsto> PStr (str ''abc'')]"
      and l = "str ''fr''" and i = True
      and s = "\<lparr>driver_name = str ''oneCore'', driver_addon = None, driver_external = False\<rparr>"
      and b = None and t = "str ''fr-bfu-comp8.utb''", THEN conjunct1, rule_format, OF manual]
  note A = checkForUpdate_telemetry [where auto = True and E = sample_env
      and st = "[''id'' \<mapsto> PStr (str ''abc'')]", THEN conjunct2, rule_format, OF auto]
  from M [THEN conjunct1, rule_format, OF params_sample_manual] M [THEN conjunct2]
    A [OF params_sample_auto]
  show ?thesis by blast
qed

text \<open>
  Claim C9. When the query is answered with status 200 and an empty body,
  \<open>checkForUpdate\<close> returns \<open>None\<close> (no update) and raises nothing.
\<close>
theorem checkForUpdate_empty_body:
  assumes "checkForUpdate_params E st auto = Inr params"
    and "fetch E (getCheckURL E) params = Inr result"
    and "status_code result = 200"
    and "content result = []"
  shows "checkForUpdate E st auto = Inr None"
  using assms by (simp add: checkForUpdate_def decode_utf8_def)

theorem checkForUpdate_empty_body_witness:
  "checkForUpdate sample_env Map.empty False = Inr None"
proof -
  have f: "fetch sample_env (getCheckURL sample_env)
      [(''autoCheck'', PBool False), (''allowUsageStats'', PBool True),
          (''version'', PStr (str ''2024.4'')), (''versionType'', PStr (str ''stable'')),
          (''osVersion'', PStr (str ''10.0.19045 workstation'')), (''x64'', PBool True),
          (''osArchitecture'', PStr (str ''AMD64''))] =
      Inr \<lparr>status_code = 200, content = []\<rparr>"
    by (simp add: sample_env_def)
  show ?thesis
    by (rule checkForUpdate_empty_body [OF params_sample_manual f]) simp_all
qed


section \<open>Properties of the installer handoff\<close>

lemma quote_chars_plain:
  "0x22 \<notin> set cs \<Longrightarrow>
   (case quote_chars bs cs of (r, b) \<Rightarrow> r @ replicate b 0x5C) = replicate bs 0x5C @ cs"
proof (induction cs arbitrary: bs)
  case Nil
  then show ?case by simp
next
  case (Cons c cs)
  then have IH: "\<And>n. (case quote_chars n cs of (r, b) \<Rightarrow> r @ replicate b 0x5C) =
      replicate n 0x5C @ cs" by simp
  show ?case
  proof (cases "c = 0x5C")
    case True
    then show ?thesis using IH [of "Suc bs"] by (simp add: replicate_append_same)
  next
    case False
    moreover from Cons.prems have "c \<noteq> 0x22" by auto
    ultimately show ?thesis using IH [of 0] by (simp split: prod.splits)
  qed
qed

lemma quote_arg_plain: "plain_arg a \<Longrightarrow> quote_arg a = a"
  using quote_chars_plain [of a 0]
  by (auto simp: quote_arg_def plain_arg_def split: prod.splits)

lemma list2cmdline_from_plain:
  "\<forall>a\<in>set seq. plain_arg a \<Longrightarrow>
   list2cmdline_from result seq =
     (if seq = [] then result else if result = [] then unwords seq
      else result @ [0x20] @ unwords seq)"
proof (induction seq arbitrary: result)
  case Nil
  then show ?case by simp
next
  case (Cons a seq)
  then have a: "quote_arg a = a" and ne: "a \<noteq> []"
    by (simp_all add: quote_arg_plain plain_arg_def)
  from Cons.prems have rest: "\<forall>a\<in>set seq. plain_arg a" by simp
  show ?case
  proof (cases seq)
    case Nil
    then show ?thesis by (simp add: a)
  next
    case (Cons b r)
    have "list2cmdline_from result (a # seq) =
          list2cmdline_from (result @ (if result \<noteq> [] then [0x20] else []) @ a) seq"
      by (simp add: a)
    also have "\<dots> = (result @ (if result \<noteq> [] then [0x20] else []) @ a) @ [0x20] @ unwords seq"
      using Cons.IH [OF rest, of "result @ (if result \<noteq> [] then [0x20] else []) @ a"] ne Cons
      by simp
    finally show ?thesis using Cons by simp
  qed
qed

lemma list2cmdline_plain:
  "\<forall>a\<in>set seq. plain_arg a \<Longrightarrow> list2cmdline seq = unwords seq"
  by (simp add: list2cmdline_def list2cmdline_from_plain)

lemma plain_flags:
  "plain_arg (str ''--install'')" "plain_arg (str ''-m'')" "plain_arg (str ''--create-portable'')"
  "plain_arg (str ''--portable-path'')" "plain_arg (str ''--launcher'')"
  "plain_arg (str ''--disable-addons'')" "plain_arg (str ''--config-path'')"
  by (simp_all add: plain_arg_def str_def)

lemma sample_env_fields:
  "conf_serverURL sample_env = []"
  "conf_allowUsageStats sample_env = True"
  "conf_autoCheck sample_env = True"
  "conf_startupNotification sample_env = False"
  "versionInfo_version sample_env = str ''2024.4''"
  "isInstalledCopy sample_env = False"
  "appDir sample_env = str ''D:/nvda''"
  "appDir_writable sample_env = True"
  "disableAddons sample_env = False"
  "launcher sample_env = False"
  "configDir sample_env = str ''D:/nvda/userConfig''"
  "uuid4_hex sample_env = str ''0f1e2d3c''"
  "listdir sample_env = Some []"
  "stateFile_write sample_env = Written"
  "isfile sample_env p = False"
  "isfile_fd sample_env n = False"
  "fromtimestamp sample_env v = Inr (2024, 11)"
  "time_minus sample_env = exact_minus"
  "fetch sample_env url params = Inr \<lparr>status_code = 200, content = []\<rparr>"
  by (simp_all add: sample_env_def)



lemma executeParams_plain:
  assumes "plain_arg (appDir E)" "plain_arg (configDir E)"
  shows "\<forall>a\<in>set (executeParams E). plain_arg a"
  using assms by (auto simp: executeParams_def plain_flags)

text \<open>
  Claim C8. The argument list of the handoff is fixed by the run mode: an installed copy
  gives \<open>--install -m\<close>; a portable copy with write access to its directory gives
  \<open>--create-portable -m --portable-path\<close> and that directory; a portable copy without
  write access gives \<open>--launcher\<close> only. In every mode \<open>--disable-addons\<close> follows
  exactly when add-ons are disabled, and \<open>--config-path\<close> with the configuration
  directory ends the list. The function returns the list as a command line, which is the
  arguments separated by single spaces when the two paths need no quoting.
\<close>
theorem generate_updateParameters_modes:
  "(isInstalledCopy E \<longrightarrow>
      executeParams E =
        [str ''--install'', str ''-m''] @
        (if disableAddons E then [str ''--disable-addons''] else []) @
        [str ''--config-path'', configDir E]) \<and>
   (\<not> isInstalledCopy E \<and> appDir_writable E \<longrightarrow>
      executeParams E =
        [str ''--create-portable'', str ''-m'', str ''--portable-path'', appDir E] @
        (if disableAddons E then [str ''--disable-addons''] else []) @
        [str ''--config-path'', configDir E]) \<and>
   (\<not> isInstalledCopy E \<and> \<not> appDir_writable E \<longrightarrow>
      executeParams E =
        [str ''--launcher''] @
        (if disableAddons E then [str ''--disable-addons''] else []) @
        [str ''--config-path'', configDir E]) \<and>
   generate_updateParameters E = list2cmdline (executeParams E) \<and>
   (plain_arg (appDir E) \<and> plain_arg (configDir E) \<longrightarrow>
      generate_updateParameters E = unwords (executeParams E))"
proof (intro conjI impI)
  assume "isInstalledCopy E"
  then show "executeParams E =
        [str ''--install'', str ''-m''] @
        (if disableAddons E then [str ''--disable-addons''] else []) @
        [str ''--config-path'', configDir E]"
    unfolding executeParams_def by simp
next
  assume "\<not> isInstalledCopy E \<and> appDir_writable E"
  then show "executeParams E =
        [str ''--create-portable'', str ''-m'', str ''--portable-path'', appDir E] @
        (if disableAddons E then [str ''--disable-addons''] else []) @
        [str ''--config-path'', configDir E]"
    unfolding executeParams_def by simp
next
  assume "\<not> isInstalledCopy E \<and> \<not> appDir_writable E"
  then show "executeParams E =
        [str ''--launcher''] @
        (if disableAddons E then [str ''--disable-addons''] else []) @
        [str ''--config-path'', configDir E]"
    unfolding executeParams_def by simp
next
  show "generate_updateParameters E = list2cmdline (executeParams E)"
    by (rule generate_updateParameters_def)
next
  assume "plain_arg (appDir E) \<and> plain_arg (configDir E)"
  then have "\<forall>a\<in>set (executeParams E). plain_arg a"
    using executeParams_plain by blast
  then show "generate_updateParameters E = unwords (executeParams E)"
    unfolding generate_updateParameters_def by (rule list2cmdline_plain)
qed


theorem generate_updateParameters_modes_witness:
  "executeParams (sample_env\<lparr>isInstalledCopy := True, disableAddons := True\<rparr>) =
     [str ''--install'', str ''-m'', str ''--disable-addons'', str ''--config-path'',
      str ''D:/nvda/userConfig''] \<and>
   executeParams sample_env =
     [str ''--create-portable'', str ''-m'', str ''--portable-path'', str ''D:/nvda'',
      str ''--config-path'', str ''D:/nvda/userConfig''] \<and>
   executeParams (sample_env\<lparr>appDir_writable := False\<rparr>) =
     [str ''--launcher'', str ''--config-path'', str ''D:/nvda/userConfig''] \<and>
   generate_updateParameters sample_env =
     str ''--create-portable -m --portable-path D:/nvda --config-path D:/nvda/userConfig''"
proof -
  have h1: "isInstalledCopy (sample_env\<lparr>isInstalledCopy := True, disableAddons := True\<rparr>)"
    by simp
  have h2: "\<not> isInstalledCopy sample_env \<and> appDir_writable sample_env"
    by (simp add: sample_env_fields)
  have h3: "\<not> isInstalledCopy (sample_env\<lparr>appDir_writable := False\<rparr>) \<and>
            \<not> appDir_writable (sample_env\<lparr>appDir_writable := False\<rparr>)"
    by (simp add: sample_env_fields)
  have h4: "plain_arg (appDir sample_env) \<and> plain_arg (configDir sample_env)"
    by (simp add: sample_env_fields plain_arg_def str_def)
  note T1 = generate_updateParameters_modes
    [where E = "sample_env\<lparr>isInstalledCopy := True, disableAddons := True\<rparr>",
     THEN conjunct1, rule_format, OF h1]
  note T = generate_updateParameters_modes [where E = sample_env]
  note T2 = T [THEN conjunct2, THEN conjunct1, rule_format, OF h2]
  note T3 = generate_updateParameters_modes
    [where E = "sample_env\<lparr>appDir_writable := False\<rparr>",
     THEN conjunct2, THEN conjunct2, THEN conjunct1, rule_format, OF h3]
  note T4 = T [THEN conjunct2, THEN conjunct2, THEN conjunct2, THEN conjunct2,
               rule_format, OF h4]
  have c1: "executeParams (sample_env\<lparr>isInstalledCopy := True, disableAddons := True\<rparr>) =
     [str ''--install'', str ''-m'', str ''--disable-addons'', str ''--config-path'',
      str ''D:/nvda/userConfig'']"
    using T1 by (simp add: sample_env_fields)
  have c2: "executeParams sample_env =
     [str ''--create-portable'', str ''-m'', str ''--portable-path'', str ''D:/nvda'',
      str ''--config-path'', str ''D:/nvda/userConfig'']"
    using T2 by (simp add: sample_env_fields)
  have c3: "executeParams (sample_env\<lparr>appDir_writable := False\<rparr>) =
     [str ''--launcher'', str ''--config-path'', str ''D:/nvda/userConfig'']"
    using T3 by (simp add: sample_env_fields)
  have c4: "generate_updateParameters sample_env =
     str ''--create-portable -m --portable-path D:/nvda --config-path D:/nvda/userConfig''"
    using T4 unfolding c2 by (simp add: str_def)
  from c1 c2 c3 c4 show ?thesis by blast
qed


section \<open>Properties of the pending update and the handoff\<close>

lemma setStateToNone_reset: "pending_reset (setStateToNone st)"
  by (simp add: pending_reset_def setStateToNone_def)

lemma setStateToNone_other:
  "k \<notin> {''pendingUpdateFile'', ''pendingUpdateVersion'', ''pendingUpdateAPIVersion'',
          ''pendingUpdateBackCompatToAPIVersion''} \<Longrightarrow> setStateToNone st k = st k"
  by (simp add: setStateToNone_def)

lemma events_emit: "events (emit e w) = events w @ [e]"
  by (simp add: emit_def)

lemma state_emit: "state (emit e w) = state w"
  by (simp add: emit_def)

lemma stateFile_emit: "stateFile (emit e w) = stateFile w"
  by (simp add: emit_def)

lemma shuttingDown_emit: "shuttingDown (emit e w) = shuttingDown w"
  by (simp add: emit_def)

lemma autoChecker_emit: "autoChecker (emit e w) = autoChecker w"
  by (simp add: emit_def)

lemmas emit_simps = events_emit state_emit stateFile_emit shuttingDown_emit autoChecker_emit

text \<open>
  Claim C6, as amended. For a non-empty path, \<open>_executeUpdate\<close> resets the four pending
  fields in memory and calls \<open>saveState\<close> before it calls \<open>triggerNVDAExit\<close>, which it
  calls exactly once. The state file holds the reset state when the write succeeds; a
  failed write is logged and leaves the file as it was (when \<open>open\<close> fails) or
  unreadable, and the exit is requested all the same. When the host is already shutting
  down, the call returns \<open>False\<close> and the logic error is logged after it.
\<close>
theorem executeUpdate_order:
  assumes "destPath \<noteq> []"
  shows "events (executeUpdate E destPath w) =
           events w @
           [case stateFile_write E of
              Written \<Rightarrow> PickleDump (setStateToNone (state w))
            | OpenFails \<Rightarrow> LogDebugWarning ''Error saving state''
            | DumpFails \<Rightarrow> LogDebugWarning ''Error saving state'',
            TriggerNVDAExit destPath (generate_updateParameters E)] @
           (if shuttingDown w
            then [LogError ''NVDA already in process of exiting, this indicates a logic error.'']
            else []) \<and>
         state (executeUpdate E destPath w) = setStateToNone (state w) \<and>
         pending_reset (state (executeUpdate E destPath w)) \<and>
         stateFile (executeUpdate E destPath w) =
           (case stateFile_write E of
              Written \<Rightarrow> Pickled (setStateToNone (state w))
            | OpenFails \<Rightarrow> stateFile w
            | DumpFails \<Rightarrow> Unreadable) \<and>
         length (filter is_trigger (drop (length (events w))
                   (events (executeUpdate E destPath w)))) = 1"
  using assms
  by (cases "stateFile_write E")
     (simp_all add: executeUpdate_def saveState_def triggerNVDAExit_def Let_def emit_simps
      setStateToNone_reset is_trigger_def)

lemma sample_state_fields:
  "sample_state ''lastCheck'' = Some (PInt 0)"
  "sample_state ''dontRemindVersion'' = Some PNone"
  "sample_state ''id'' = Some (PStr (str ''0f1e2d3c''))"
  "sample_state ''pendingUpdateFile'' = Some PNone"
  "sample_state ''pendingUpdateVersion'' = Some PNone"
  "sample_state ''pendingUpdateAPIVersion'' = Some (PVer 0 0 0)"
  "sample_state ''pendingUpdateBackCompatToAPIVersion'' = Some (PVer 0 0 0)"
  by (simp_all add: sample_state_def default_state_def setStateToNone_def)

lemma sample_world_fields:
  "state sample_world = sample_state"
  "stateFile sample_world = Pickled sample_state"
  "autoChecker sample_world = False"
  "shuttingDown sample_world = False"
  "events sample_world = []"
  by (simp_all add: sample_world_def)

lemma stale_state_fields:
  "stale_state ''lastCheck'' = Some (PInt 0)"
  "stale_state ''dontRemindVersion'' = Some PNone"
  "stale_state ''id'' = Some (PStr (str ''0f1e2d3c''))"
  "stale_state ''pendingUpdateFile'' = Some (PStr (str ''D:/nvda/updates/nvda_2025.1.exe''))"
  "stale_state ''pendingUpdateVersion'' = Some (PStr (str ''2025.1''))"
  "stale_state ''pendingUpdateAPIVersion'' = Some (PVer 2025 1 0)"
  "stale_state ''pendingUpdateBackCompatToAPIVersion'' = Some (PVer 2025 1 0)"
  by (simp_all add: stale_state_def sample_state_fields)

lemma stale_world_fields:
  "state stale_world = sample_state"
  "stateFile stale_world = Pickled stale_state"
  "autoChecker stale_world = False"
  "shuttingDown stale_world = False"
  "events stale_world = []"
  by (simp_all add: stale_world_def sample_world_fields)

theorem executeUpdate_order_witness:
  "events (executeUpdate sample_env (str ''D:/tmp/nvda_update.exe'')
             (sample_world\<lparr>shuttingDown := True\<rparr>)) =
     [PickleDump (setStateToNone sample_state),
      TriggerNVDAExit (str ''D:/tmp/nvda_update.exe'') (generate_updateParameters sample_env),
      LogError ''NVDA already in process of exiting, this indicates a logic error.''] \<and>
   pending_reset (state (executeUpdate sample_env (str ''D:/tmp/nvda_update.exe'')
             (sample_world\<lparr>shuttingDown := True\<rparr>))) \<and>
   stateFile (executeUpdate sample_env (str ''D:/tmp/nvda_update.exe'')
             (sample_world\<lparr>shuttingDown := True\<rparr>)) = Pickled (setStateToNone sample_state)"
proof -
  have h: "str ''D:/tmp/nvda_update.exe'' \<noteq> []" by (simp add: str_def)
  from executeUpdate_order [OF h, of sample_env "sample_world\<lparr>shuttingDown := True\<rparr>"]
  show ?thesis by (simp add: sample_env_fields sample_world_fields setStateToNone_reset)
qed

lemma executeUpdate_unsaved:
  "executeUpdate (sample_env\<lparr>stateFile_write := OpenFails\<rparr>)
     (str ''D:/nvda/updates/nvda_2025.1.exe'') (stale_world\<lparr>state := stale_state\<rparr>) =
   \<lparr>state = setStateToNone stale_state, stateFile = Pickled stale_state,
    autoChecker = False, shuttingDown = True,
    events = [LogDebugWarning ''Error saving state'',
              TriggerNVDAExit (str ''D:/nvda/updates/nvda_2025.1.exe'')
                (generate_updateParameters (sample_env\<lparr>stateFile_write := OpenFails\<rparr>))]\<rparr>"
  by (simp add: executeUpdate_def saveState_def triggerNVDAExit_def Let_def emit_def
      stale_world_fields str_def)

text \<open>
  The state is not always persisted before the handoff, as claim C6 has it: when the
  state file cannot be opened for writing, it still holds the record of the pending
  update when the exit of the host is requested.
\<close>
theorem executeUpdate_unsaved_counterexample:
  "stateFile (executeUpdate (sample_env\<lparr>stateFile_write := OpenFails\<rparr>)
      (str ''D:/nvda/updates/nvda_2025.1.exe'') (stale_world\<lparr>state := stale_state\<rparr>)) =
     Pickled stale_state \<and>
   \<not> pending_reset stale_state \<and>
   stale_state ''pendingUpdateFile'' = Some (PStr (str ''D:/nvda/updates/nvda_2025.1.exe'')) \<and>
   filter is_trigger (events (executeUpdate (sample_env\<lparr>stateFile_write := OpenFails\<rparr>)
      (str ''D:/nvda/updates/nvda_2025.1.exe'') (stale_world\<lparr>state := stale_state\<rparr>))) =
     [TriggerNVDAExit (str ''D:/nvda/updates/nvda_2025.1.exe'')
        (generate_updateParameters (sample_env\<lparr>stateFile_write := OpenFails\<rparr>))]"
  unfolding executeUpdate_unsaved
  by (simp add: pending_reset_def stale_state_fields is_trigger_def)

section \<open>Properties of the scheduler\<close>

lemma getPendingUpdate_other:
  "k \<notin> {''pendingUpdateFile'', ''pendingUpdateVersion'', ''pendingUpdateAPIVersion'',
          ''pendingUpdateBackCompatToAPIVersion''} \<Longrightarrow>
   state (snd (getPendingUpdate E w)) k = state w k"
  by (auto simp: getPendingUpdate_def setStateToNone_def
      split: option.splits sum.splits bool.splits)

lemma isPendingUpdate_other:
  "k \<notin> {''pendingUpdateFile'', ''pendingUpdateVersion'', ''pendingUpdateAPIVersion'',
          ''pendingUpdateBackCompatToAPIVersion''} \<Longrightarrow>
   state (snd (isPendingUpdate E w)) k = state w k"
  using getPendingUpdate_other [of k E w]
  by (cases "getPendingUpdate E w") (auto simp: isPendingUpdate_def split: sum.splits)

lemma py_int_clamp:
  "py_int (py_min (py_max (Finite x) (Finite 0)) (Finite (real_of_int CHECK_INTERVAL))) =
   Inr \<lfloor>min (max x 0) (real_of_int CHECK_INTERVAL)\<rfloor>"
  by (simp add: py_min_def py_max_def CHECK_INTERVAL_def min_def max_def)

lemma py_int_clamp_PosInf:
  "py_int (py_min (py_max PosInf (Finite 0)) (Finite (real_of_int CHECK_INTERVAL))) =
   Inr CHECK_INTERVAL"
  by (simp add: py_min_def py_max_def CHECK_INTERVAL_def)

lemma py_int_clamp_NegInf:
  "py_int (py_min (py_max NegInf (Finite 0)) (Finite (real_of_int CHECK_INTERVAL))) = Inr 0"
  by (simp add: py_min_def py_max_def CHECK_INTERVAL_def)

lemma py_int_clamp_NaN:
  "py_int (py_min (py_max NaN (Finite 0)) (Finite (real_of_int CHECK_INTERVAL))) =
   Inl ValueError"
  by (simp add: py_min_def py_max_def CHECK_INTERVAL_def)

lemma secsTillNext_value:
  assumes "\<not> conf_startupNotification E \<or> fst (isPendingUpdate E w) = Inr False"
    and "state w ''lastCheck'' = Some v"
    and "time_minus E now v = Inr elapsed"
  shows "fst (secsTillNext E now w) =
         map_sum id (\<lambda>n. CHECK_INTERVAL - n)
           (py_int (py_min (py_max elapsed (Finite 0)) (Finite (real_of_int CHECK_INTERVAL))))"
proof (cases "conf_startupNotification E")
  case False
  with assms show ?thesis
    by (simp add: secsTillNext_def Let_def split: sum.splits)
next
  case True
  obtain p w' where pw: "isPendingUpdate E w = (p, w')" by (cases "isPendingUpdate E w")
  with assms True have p: "p = Inr False" by simp
  moreover have "state w' ''lastCheck'' = Some v"
    using isPendingUpdate_other [of "''lastCheck''" E w] pw assms(2) by simp
  ultimately show ?thesis
    using True pw assms(3)
    by (simp add: secsTillNext_def Let_def split: sum.splits)
qed

text \<open>
  Claim C5, as amended. Let \<open>elapsed\<close> be the float that the subtraction of the
  stored \<open>lastCheck\<close> from \<open>time.time()\<close> evaluates to. When no notification of a pending update is due, the initial delay is
  \<open>CHECK_INTERVAL\<close> minus the whole seconds of \<open>min(max(elapsed, 0), CHECK_INTERVAL)\<close>. It
  is 0 when \<open>elapsed\<close> is at least \<open>CHECK_INTERVAL\<close>, it is \<open>CHECK_INTERVAL\<close> when \<open>elapsed\<close>
  is zero or negative (the clock moved backwards), and it is never negative nor above
  \<open>CHECK_INTERVAL\<close>. A NaN makes \<open>int\<close> raise \<open>ValueError\<close>.
\<close>
theorem secsTillNext_delay:
  assumes "\<not> conf_startupNotification E \<or> fst (isPendingUpdate E w) = Inr False"
    and "state w ''lastCheck'' = Some v"
    and "time_minus E now v = Inr elapsed"
  shows "(\<forall>x. elapsed = Finite x \<longrightarrow>
            fst (secsTillNext E now w) =
              Inr (CHECK_INTERVAL - \<lfloor>min (max x 0) (real_of_int CHECK_INTERVAL)\<rfloor>)) \<and>
         (\<forall>x. elapsed = Finite x \<and> real_of_int CHECK_INTERVAL \<le> x \<longrightarrow>
            fst (secsTillNext E now w) = Inr 0) \<and>
         (\<forall>x. elapsed = Finite x \<and> x \<le> 0 \<longrightarrow>
            fst (secsTillNext E now w) = Inr CHECK_INTERVAL) \<and>
         (elapsed = PosInf \<longrightarrow> fst (secsTillNext E now w) = Inr 0) \<and>
         (elapsed = NegInf \<longrightarrow> fst (secsTillNext E now w) = Inr CHECK_INTERVAL) \<and>
         (elapsed = NaN \<longrightarrow> fst (secsTillNext E now w) = Inl ValueError) \<and>
         (\<forall>d. fst (secsTillNext E now w) = Inr d \<longrightarrow> 0 \<le> d \<and> d \<le> CHECK_INTERVAL)"
proof -
  note v = secsTillNext_value [OF assms]
  have lo: "0 \<le> \<lfloor>min (max x 0) (real_of_int CHECK_INTERVAL)\<rfloor>" for x :: real
    by (simp add: CHECK_INTERVAL_def)
  have hi: "\<lfloor>min (max x 0) (real_of_int CHECK_INTERVAL)\<rfloor> \<le> CHECK_INTERVAL" for x :: real
    by (simp add: floor_le_iff min_def)
  have a: "real_of_int CHECK_INTERVAL \<le> x \<Longrightarrow>
      \<lfloor>min (max x 0) (real_of_int CHECK_INTERVAL)\<rfloor> = CHECK_INTERVAL" for x :: real
    by (simp add: CHECK_INTERVAL_def min_def max_def)
  have b: "x \<le> 0 \<Longrightarrow> \<lfloor>min (max x 0) (real_of_int CHECK_INTERVAL)\<rfloor> = 0" for x :: real
    by (simp add: CHECK_INTERVAL_def min_def max_def)
  have c1: "\<forall>x. elapsed = Finite x \<longrightarrow>
            fst (secsTillNext E now w) =
              Inr (CHECK_INTERVAL - \<lfloor>min (max x 0) (real_of_int CHECK_INTERVAL)\<rfloor>)"
    unfolding v by (simp add: py_int_clamp)
  have c2: "\<forall>x. elapsed = Finite x \<and> real_of_int CHECK_INTERVAL \<le> x \<longrightarrow>
            fst (secsTillNext E now w) = Inr 0"
    using c1 by (simp add: a)
  have c3: "\<forall>x. elapsed = Finite x \<and> x \<le> 0 \<longrightarrow>
            fst (secsTillNext E now w) = Inr CHECK_INTERVAL"
  proof (intro allI impI)
    fix x assume h: "elapsed = Finite x \<and> x \<le> 0"
    with c1 have "fst (secsTillNext E now w) =
        Inr (CHECK_INTERVAL - \<lfloor>min (max x 0) (real_of_int CHECK_INTERVAL)\<rfloor>)" by blast
    with b [of x] h show "fst (secsTillNext E now w) = Inr CHECK_INTERVAL" by simp
  qed
  have c4: "elapsed = PosInf \<longrightarrow> fst (secsTillNext E now w) = Inr 0"
    unfolding v by (simp add: py_int_clamp_PosInf)
  have c5: "elapsed = NegInf \<longrightarrow> fst (secsTillNext E now w) = Inr CHECK_INTERVAL"
    unfolding v by (simp add: py_int_clamp_NegInf)
  have c6: "elapsed = NaN \<longrightarrow> fst (secsTillNext E now w) = Inl ValueError"
    unfolding v by (simp add: py_int_clamp_NaN)
  have c7: "\<forall>d. fst (secsTillNext E now w) = Inr d \<longrightarrow> 0 \<le> d \<and> d \<le> CHECK_INTERVAL"
  proof (cases elapsed)
    case (Finite x)
    with c1 lo [of x] hi [of x] show ?thesis by simp
  next
    case PosInf
    with c4 show ?thesis by (simp add: CHECK_INTERVAL_def)
  next
    case NegInf
    with c5 show ?thesis by (simp add: CHECK_INTERVAL_def)
  next
    case NaN
    with c6 show ?thesis by simp
  qed
  from c1 c2 c3 c4 c5 c6 c7 show ?thesis by blast
qed

lemma exact_minus_sample:
  "exact_minus (Finite a) (PInt 0) = Inr (Finite a)"
  by (simp add: exact_minus_def)

theorem secsTillNext_delay_witness:
  "fst (secsTillNext sample_env (Finite 172800) sample_world) = Inr 0 \<and>
   fst (secsTillNext sample_env (Finite 0) sample_world) = Inr CHECK_INTERVAL \<and>
   fst (secsTillNext sample_env (Finite 3600.5) sample_world) = Inr 82800"
proof -
  have h1: "\<not> conf_startupNotification sample_env \<or>
            fst (isPendingUpdate sample_env sample_world) = Inr False"
    by (simp add: sample_env_fields)
  have h2: "state sample_world ''lastCheck'' = Some (PInt 0)"
    by (simp add: sample_world_fields sample_state_fields)
  have h3: "time_minus sample_env (Finite a) (PInt 0) = Inr (Finite a)" for a
    by (simp add: sample_env_fields exact_minus_sample)
  note T = secsTillNext_delay [OF h1 h2 h3]
  have a: "Finite 172800 = Finite 172800 \<and> real_of_int CHECK_INTERVAL \<le> 172800"
    by (simp add: CHECK_INTERVAL_def)
  have c1: "fst (secsTillNext sample_env (Finite 172800) sample_world) = Inr 0"
    by (rule T [of 172800, THEN conjunct2, THEN conjunct1, THEN spec, THEN mp, OF a])
  have b: "Finite 0 = Finite 0 \<and> (0::real) \<le> 0" by simp
  have c2: "fst (secsTillNext sample_env (Finite 0) sample_world) = Inr CHECK_INTERVAL"
    by (rule T [of 0, THEN conjunct2, THEN conjunct2, THEN conjunct1, THEN spec, THEN mp, OF b])
  have f3: "CHECK_INTERVAL - \<lfloor>min (max (3600.5::real) 0) (real_of_int CHECK_INTERVAL)\<rfloor> = 82800"
    by (simp add: CHECK_INTERVAL_def)
  have c3: "fst (secsTillNext sample_env (Finite 3600.5) sample_world) = Inr 82800"
    using T [of "3600.5", THEN conjunct1, THEN spec, THEN mp, OF refl] unfolding f3 .
  from c1 c2 c3 show ?thesis by blast
qed

lemma secsTillNext_sample_half:
  "secsTillNext sample_env (Finite (1/2)) sample_world = (Inr 86400, sample_world)"
  by (simp add: secsTillNext_def sample_env_fields sample_world_fields sample_state_fields
      exact_minus_def py_min_def py_max_def CHECK_INTERVAL_def)

text \<open>
  Without the truncation \<open>int(...)\<close> the formula of claim C5 is not what the code
  computes: half a second after the last check the delay is 86400, not 86399.5.
\<close>
theorem secsTillNext_counterexample:
  "map_sum id real_of_int (fst (secsTillNext sample_env (Finite (1/2)) sample_world)) \<noteq>
   Inr (real_of_int CHECK_INTERVAL -
        min (max (1/2 - 0) 0) (real_of_int CHECK_INTERVAL))"
  unfolding secsTillNext_sample_half by (simp add: CHECK_INTERVAL_def)


section \<open>Properties of startup and of the pending update\<close>

lemma setStateToNone_fix: "pending_reset st \<Longrightarrow> setStateToNone st = st"
  by (rule ext) (auto simp: pending_reset_def setStateToNone_def)

lemma getPendingUpdate_snd:
  "snd (getPendingUpdate E w) = w \<or>
   snd (getPendingUpdate E w) = w\<lparr>state := setStateToNone (state w)\<rparr>"
  by (auto simp: getPendingUpdate_def split: option.splits sum.splits bool.splits)

lemma getPendingUpdate_state:
  "state (snd (getPendingUpdate E w)) = state w \<or>
   state (snd (getPendingUpdate E w)) = setStateToNone (state w)"
  using getPendingUpdate_snd [of E w] by auto

lemma getPendingUpdate_keeps_reset:
  "pending_reset (state w) \<Longrightarrow> pending_reset (state (snd (getPendingUpdate E w)))"
  using getPendingUpdate_state [of E w] by (auto simp: setStateToNone_reset)

lemma getPendingUpdate_missing:
  "state w ''pendingUpdateFile'' = None \<Longrightarrow>
   getPendingUpdate E w = (Inr None, w\<lparr>state := setStateToNone (state w)\<rparr>)"
  by (simp add: getPendingUpdate_def)

lemma getPendingUpdate_not_a_file:
  assumes "state w ''pendingUpdateFile'' = Some p"
    and "\<not> truthy p \<or> os_path_isfile E p = Inr False"
  shows "getPendingUpdate E w = (Inr None, w\<lparr>state := setStateToNone (state w)\<rparr>)"
  using assms by (auto simp: getPendingUpdate_def split: option.splits)

lemma getPendingUpdate_Some:
  assumes "fst (getPendingUpdate E w) = Inr (Some (p, v, a, b))"
  shows "state w ''pendingUpdateFile'' = Some p \<and> truthy p \<and>
         os_path_isfile E p = Inr True \<and> snd (getPendingUpdate E w) = w"
  using assms
  by (auto simp: getPendingUpdate_def split: option.splits sum.splits bool.splits if_splits)

lemma isPendingUpdate_snd: "snd (isPendingUpdate E w) = snd (getPendingUpdate E w)"
  by (cases "getPendingUpdate E w") (auto simp: isPendingUpdate_def split: sum.splits)

lemma isPendingUpdate_fst:
  "fst (isPendingUpdate E w) = map_sum id (\<lambda>r. r \<noteq> None) (fst (getPendingUpdate E w))"
  by (cases "getPendingUpdate E w") (auto simp: isPendingUpdate_def split: sum.splits)

lemma secsTillNext_snd:
  "snd (secsTillNext E now w) =
   (if conf_startupNotification E then snd (getPendingUpdate E w) else w)"
proof (cases "conf_startupNotification E")
  case False
  then show ?thesis
    by (simp add: secsTillNext_def Let_def split: option.splits sum.splits)
next
  case True
  obtain p w' where pw: "isPendingUpdate E w = (p, w')" by (cases "isPendingUpdate E w")
  then have "snd (getPendingUpdate E w) = w'"
    using isPendingUpdate_snd [of E w] by simp
  with True pw show ?thesis
    by (simp add: secsTillNext_def Let_def split: option.splits sum.splits)
qed

lemma AutoUpdateChecker_init_state:
  "state (snd (AutoUpdateChecker_init E now w)) = state (snd (secsTillNext E now w))"
  by (cases "secsTillNext E now w")
     (auto simp: AutoUpdateChecker_init_def emit_simps split: sum.splits)

lemma new_AutoUpdateChecker_state:
  "state (snd (new_AutoUpdateChecker E now w)) =
   state (if conf_startupNotification E then snd (getPendingUpdate E w) else w)"
proof -
  have "state (snd (new_AutoUpdateChecker E now w)) =
        state (snd (AutoUpdateChecker_init E now w))"
    by (cases "AutoUpdateChecker_init E now w")
       (auto simp: new_AutoUpdateChecker_def split: option.splits)
  then show ?thesis
    by (simp only: AutoUpdateChecker_init_state secsTillNext_snd)
qed

lemma new_AutoUpdateChecker_state_cases:
  "state (snd (new_AutoUpdateChecker E now w)) = state w \<or>
   state (snd (new_AutoUpdateChecker E now w)) = setStateToNone (state w)"
  using getPendingUpdate_state [of E w]
  by (auto simp: new_AutoUpdateChecker_state)

lemma sweep_files_state: "state (snd (sweep_files E fs w)) = state w"
  by (induction fs arbitrary: w) (auto simp: emit_simps split: option.splits)

lemma sweep_state: "state (snd (sweep E opened w)) = state w"
  by (auto simp: sweep_def sweep_files_state emit_simps split: option.splits)

lemma sweep_files_ok:
  "state w ''pendingUpdateFile'' \<noteq> None \<Longrightarrow> fst (sweep_files E fs w) = None"
  by (induction fs arbitrary: w) (auto simp: emit_simps split: option.splits)

lemma sweep_ok:
  "state w ''pendingUpdateFile'' \<noteq> None \<Longrightarrow> fst (sweep E True w) = None"
  by (auto simp: sweep_def sweep_files_ok split: option.splits)

lemma load_state_reset:
  assumes "stateFile w = NoFile \<or> stateFile w = Unreadable \<or> stateFile w = PickledNone \<or>
           (\<exists>st. stateFile w = Pickled st \<and>
              (st ''pendingUpdateVersion'' = None \<or>
               st ''pendingUpdateVersion'' = Some (PStr (versionInfo_version E))))"
  shows "pending_reset (state (load_state E w))"
proof -
  have d: "default_state ''pendingUpdateVersion'' = Some PNone"
    by (simp add: default_state_def setStateToNone_def)
  have r: "pending_reset default_state"
    by (simp add: default_state_def setStateToNone_reset)
  have u: "pending_reset st \<Longrightarrow> pending_reset (st(''id'' \<mapsto> x))" for st x
    by (simp add: pending_reset_def)
  from assms consider "stateFile w = NoFile" | "stateFile w = Unreadable"
    | "stateFile w = PickledNone"
    | st where "stateFile w = Pickled st"
        "st ''pendingUpdateVersion'' = None \<or>
         st ''pendingUpdateVersion'' = Some (PStr (versionInfo_version E))"
    by blast
  then show ?thesis
  proof cases
    case 1
    then show ?thesis
      by (simp add: load_state_def Let_def emit_simps setStateToNone_reset r u)
  next
    case 2
    then show ?thesis
      by (simp add: load_state_def Let_def emit_simps setStateToNone_reset r u)
  next
    case 3
    then show ?thesis
      by (simp add: load_state_def Let_def emit_simps setStateToNone_reset r u)
  next
    case 4
    then show ?thesis
      by (auto simp: load_state_def Let_def setStateToNone_reset)
  qed
qed

lemma load_state_file:
  assumes "stateFile w = Pickled st" and "st ''pendingUpdateFile'' = Some f"
  shows "pending_reset (state (load_state E w)) \<or>
         state (load_state E w) ''pendingUpdateFile'' = Some f"
  using assms by (auto simp: load_state_def Let_def setStateToNone_reset)

lemma initialize_state_cases:
  "state (snd (initialize E now w)) = state (load_state E w) \<or>
   state (snd (initialize E now w)) = setStateToNone (state (load_state E w))"
proof -
  obtain e w3 where sw: "sweep E (stateFile w \<noteq> NoFile) (load_state E w) = (e, w3)"
    by (cases "sweep E (stateFile w \<noteq> NoFile) (load_state E w)")
  have s3: "state w3 = state (load_state E w)"
    using sweep_state [of E "stateFile w \<noteq> NoFile" "load_state E w"] sw by simp
  obtain p w4 where pw: "isPendingUpdate E w3 = (p, w4)" by (cases "isPendingUpdate E w3")
  have w4: "w4 = snd (getPendingUpdate E w3)"
    using isPendingUpdate_snd [of E w3] pw by simp
  have s4: "state w4 = state w3 \<or> state w4 = setStateToNone (state w3)"
    unfolding w4 by (rule getPendingUpdate_state)
  have n3: "state (snd (new_AutoUpdateChecker E now w3)) = state w3 \<or>
            state (snd (new_AutoUpdateChecker E now w3)) = setStateToNone (state w3)"
    by (rule new_AutoUpdateChecker_state_cases)
  have n4: "state (snd (new_AutoUpdateChecker E now w4)) = state w3 \<or>
            state (snd (new_AutoUpdateChecker E now w4)) = setStateToNone (state w3)"
    using new_AutoUpdateChecker_state_cases [of E now w4] s4
    by (auto simp: setStateToNone_fix setStateToNone_reset)
  show ?thesis
  proof (cases e)
    case (Some x)
    with sw s3 show ?thesis by (simp add: initialize_def)
  next
    case None
    show ?thesis
    proof (cases p)
      case (Inl x)
      with None sw pw s3 s4 n3 show ?thesis by (auto simp: initialize_def)
    next
      case (Inr q)
      with None sw pw s3 s4 n3 n4 show ?thesis by (auto simp: initialize_def)
    qed
  qed
qed

lemma initialize_keeps_reset:
  "pending_reset (state (load_state E w)) \<Longrightarrow> pending_reset (state (snd (initialize E now w)))"
  using initialize_state_cases [of E now w] by (auto simp: setStateToNone_reset)

lemma initialize_reads_pending:
  assumes "\<not> launcher E" and "conf_startupNotification E"
    and "stateFile w = Pickled st" and "st ''pendingUpdateFile'' = Some f"
    and "\<not> truthy f \<or> os_path_isfile E f = Inr False"
  shows "pending_reset (state (snd (initialize E now w)))"
proof -
  from load_state_file [OF assms(3,4), of E]
  consider "pending_reset (state (load_state E w))"
    | "state (load_state E w) ''pendingUpdateFile'' = Some f" by blast
  then show ?thesis
  proof cases
    case 1
    then show ?thesis by (rule initialize_keeps_reset)
  next
    case 2
    obtain e w3 where sw: "sweep E True (load_state E w) = (e, w3)"
      by (cases "sweep E True (load_state E w)")
    have e: "e = None"
      using sweep_ok [of "load_state E w" E] 2 sw by simp
    have s3: "state w3 = state (load_state E w)"
      using sweep_state [of E True "load_state E w"] sw by simp
    with 2 have f3: "state w3 ''pendingUpdateFile'' = Some f" by simp
    note g = getPendingUpdate_not_a_file [OF f3 assms(5)]
    have i: "isPendingUpdate E w3 = (Inr False, w3\<lparr>state := setStateToNone (state w3)\<rparr>)"
      by (simp add: isPendingUpdate_def g)
    have n: "pending_reset (state (snd (new_AutoUpdateChecker E now w3)))"
      using assms(2) by (simp add: new_AutoUpdateChecker_state g setStateToNone_reset)
    from assms(1,2,3) sw e i n show ?thesis
      by (simp add: initialize_def setStateToNone_reset)
  qed
qed

lemma sweep_files_isfile:
  "sweep_files (E\<lparr>isfile := g, isfile_fd := h\<rparr>) fs w = sweep_files E fs w"
  by (induction fs arbitrary: w) (auto split: option.splits)

lemma sweep_isfile:
  "sweep (E\<lparr>isfile := g, isfile_fd := h\<rparr>) opened w = sweep E opened w"
  by (simp add: sweep_def sweep_files_isfile split: option.splits)

lemma load_state_isfile:
  "load_state (E\<lparr>isfile := g, isfile_fd := h\<rparr>) w = load_state E w"
  by (simp add: load_state_def Let_def cong: if_cong)

lemma new_AutoUpdateChecker_isfile:
  "\<not> conf_startupNotification E \<Longrightarrow>
   new_AutoUpdateChecker (E\<lparr>isfile := g, isfile_fd := h\<rparr>) now w =
   new_AutoUpdateChecker E now w"
proof -
  assume n: "\<not> conf_startupNotification E"
  have "secsTillNext (E\<lparr>isfile := g, isfile_fd := h\<rparr>) now w = secsTillNext E now w"
    using n by (cases "state w ''lastCheck''") (simp_all add: secsTillNext_def)
  then show ?thesis
    by (simp add: new_AutoUpdateChecker_def AutoUpdateChecker_init_def)
qed

lemma initialize_without_read:
  assumes "launcher E \<or> \<not> conf_startupNotification E"
  shows "state (snd (initialize E now w)) = state (load_state E w) \<and>
         initialize (E\<lparr>isfile := g, isfile_fd := h\<rparr>) now w = initialize E now w"
proof -
  obtain e w3 where sw: "sweep E (stateFile w \<noteq> NoFile) (load_state E w) = (e, w3)"
    by (cases "sweep E (stateFile w \<noteq> NoFile) (load_state E w)")
  have s3: "state w3 = state (load_state E w)"
    using sweep_state [of E "stateFile w \<noteq> NoFile" "load_state E w"] sw by simp
  have a: "state (snd (initialize E now w)) = state (load_state E w)"
    using assms sw s3
    by (cases e) (auto simp: initialize_def new_AutoUpdateChecker_state)
  have b: "initialize (E\<lparr>isfile := g, isfile_fd := h\<rparr>) now w = initialize E now w"
    using assms sw
    by (cases e)
       (auto simp: initialize_def sweep_isfile load_state_isfile new_AutoUpdateChecker_isfile)
  from a b show ?thesis by blast
qed

text \<open>
  Claim C4, as amended. Startup resets the four pending fields when the state file
  cannot be opened or unpickled or holds \<open>None\<close>, or when \<open>pendingUpdateVersion\<close> is
  missing or is the running version; they stay reset whatever happens later in startup,
  an exception included. When the application is not run as launcher and the startup
  notification is enabled, startup also leaves them reset for a recorded
  \<open>pendingUpdateFile\<close> that is empty or not an existing file. When it is run as
  launcher or the notification is disabled, the state after startup is the state as
  loaded and checked against the version, and the outcome of startup does not depend on
  which files exist. Every read of the pending update checks the file: it returns
  \<open>None\<close> and resets the four fields when the key is missing or the path is empty or
  not an existing file, and it returns a pending update only for a non-empty path of an
  existing file, leaving the state as it is.
\<close>
theorem initialize_pending_reset:
  "(stateFile w = NoFile \<or> stateFile w = Unreadable \<or> stateFile w = PickledNone \<or>
    (\<exists>s. stateFile w = Pickled s \<and>
       (s ''pendingUpdateVersion'' = None \<or>
        s ''pendingUpdateVersion'' = Some (PStr (versionInfo_version E)))) \<longrightarrow>
      pending_reset (state (snd (initialize E now w)))) \<and>
   (\<not> launcher E \<and> conf_startupNotification E \<and> stateFile w = Pickled st \<and>
    st ''pendingUpdateFile'' = Some f \<and> (\<not> truthy f \<or> os_path_isfile E f = Inr False) \<longrightarrow>
      pending_reset (state (snd (initialize E now w)))) \<and>
   (launcher E \<or> \<not> conf_startupNotification E \<longrightarrow>
      state (snd (initialize E now w)) = state (load_state E w) \<and>
      initialize (E\<lparr>isfile := g, isfile_fd := h\<rparr>) now w = initialize E now w) \<and>
   (state r ''pendingUpdateFile'' = None \<or>
    (\<exists>q. state r ''pendingUpdateFile'' = Some q \<and>
       (\<not> truthy q \<or> os_path_isfile E q = Inr False)) \<longrightarrow>
      fst (getPendingUpdate E r) = Inr None \<and>
      pending_reset (state (snd (getPendingUpdate E r)))) \<and>
   (fst (getPendingUpdate E r) = Inr (Some (p, v, a, b)) \<longrightarrow>
      state r ''pendingUpdateFile'' = Some p \<and> truthy p \<and>
      os_path_isfile E p = Inr True \<and> snd (getPendingUpdate E r) = r)"
proof (intro conjI impI)
  assume "stateFile w = NoFile \<or> stateFile w = Unreadable \<or> stateFile w = PickledNone \<or>
    (\<exists>s. stateFile w = Pickled s \<and>
       (s ''pendingUpdateVersion'' = None \<or>
        s ''pendingUpdateVersion'' = Some (PStr (versionInfo_version E))))"
  then show "pending_reset (state (snd (initialize E now w)))"
    by (intro initialize_keeps_reset load_state_reset)
next
  assume "\<not> launcher E \<and> conf_startupNotification E \<and> stateFile w = Pickled st \<and>
    st ''pendingUpdateFile'' = Some f \<and> (\<not> truthy f \<or> os_path_isfile E f = Inr False)"
  then show "pending_reset (state (snd (initialize E now w)))"
    using initialize_reads_pending [of E w st f now] by blast
next
  assume h: "launcher E \<or> \<not> conf_startupNotification E"
  from initialize_without_read [OF h]
  show "state (snd (initialize E now w)) = state (load_state E w)" by blast
  from initialize_without_read [OF h]
  show "initialize (E\<lparr>isfile := g, isfile_fd := h\<rparr>) now w = initialize E now w" by blast
next
  assume h: "state r ''pendingUpdateFile'' = None \<or>
    (\<exists>q. state r ''pendingUpdateFile'' = Some q \<and>
       (\<not> truthy q \<or> os_path_isfile E q = Inr False))"
  then have g: "getPendingUpdate E r = (Inr None, r\<lparr>state := setStateToNone (state r)\<rparr>)"
    using getPendingUpdate_missing [of r E] getPendingUpdate_not_a_file [of r _ E] by blast
  show "fst (getPendingUpdate E r) = Inr None" by (simp add: g)
  show "pending_reset (state (snd (getPendingUpdate E r)))"
    by (simp add: g setStateToNone_reset)
next
  assume h: "fst (getPendingUpdate E r) = Inr (Some (p, v, a, b))"
  from getPendingUpdate_Some [OF h]
  show "state r ''pendingUpdateFile'' = Some p" "truthy p" "os_path_isfile E p = Inr True"
    "snd (getPendingUpdate E r) = r" by blast+
qed


theorem initialize_pending_reset_witness:
  "pending_reset (state (snd (initialize sample_env (Finite 0)
      (sample_world\<lparr>stateFile := NoFile\<rparr>)))) \<and>
   pending_reset (state (snd (initialize (sample_env\<lparr>conf_startupNotification := True\<rparr>)
      (Finite 0) stale_world))) \<and>
   initialize (sample_env\<lparr>isfile := \<lambda>p. True, isfile_fd := \<lambda>n. True\<rparr>) (Finite 0) stale_world =
     initialize sample_env (Finite 0) stale_world \<and>
   fst (getPendingUpdate sample_env (sample_world\<lparr>state := stale_state\<rparr>)) = Inr None \<and>
   pending_reset (state (snd (getPendingUpdate sample_env
      (sample_world\<lparr>state := stale_state\<rparr>)))) \<and>
   os_path_isfile (sample_env\<lparr>isfile := \<lambda>p. True\<rparr>)
     (PStr (str ''D:/nvda/updates/nvda_2025.1.exe'')) = Inr True"
proof -
  let ?p = "PStr (str ''D:/nvda/updates/nvda_2025.1.exe'')"
  let ?w1 = "sample_world\<lparr>stateFile := NoFile\<rparr>"
  let ?E2 = "sample_env\<lparr>conf_startupNotification := True\<rparr>"
  let ?w3 = "sample_world\<lparr>state := stale_state\<rparr>"
  let ?E4 = "sample_env\<lparr>isfile := \<lambda>p. True\<rparr>"
  have h1: "stateFile ?w1 = NoFile \<or> stateFile ?w1 = Unreadable \<or>
      stateFile ?w1 = PickledNone \<or>
      (\<exists>s. stateFile ?w1 = Pickled s \<and>
         (s ''pendingUpdateVersion'' = None \<or>
          s ''pendingUpdateVersion'' = Some (PStr (versionInfo_version sample_env))))"
    by simp
  have h2: "\<not> launcher ?E2 \<and> conf_startupNotification ?E2 \<and>
      stateFile stale_world = Pickled stale_state \<and>
      stale_state ''pendingUpdateFile'' = Some ?p \<and>
      (\<not> truthy ?p \<or> os_path_isfile ?E2 ?p = Inr False)"
    by (simp add: sample_env_fields stale_state_fields stale_world_fields os_path_isfile_def)
  have h3: "launcher sample_env \<or> \<not> conf_startupNotification sample_env"
    by (simp add: sample_env_fields)
  have h4: "state ?w3 ''pendingUpdateFile'' = None \<or>
      (\<exists>q. state ?w3 ''pendingUpdateFile'' = Some q \<and>
         (\<not> truthy q \<or> os_path_isfile sample_env q = Inr False))"
    by (simp add: stale_state_fields sample_env_fields os_path_isfile_def)
  have h5: "fst (getPendingUpdate ?E4 ?w3) =
      Inr (Some (?p, PStr (str ''2025.1''), PVer 2025 1 0, PVer 2025 1 0))"
    by (simp add: getPendingUpdate_def stale_state_fields or_zero_version_def
        os_path_isfile_def str_def)
  note T1 = initialize_pending_reset [where E = sample_env and w = ?w1 and now = "Finite 0",
      THEN conjunct1, THEN mp, OF h1]
  note T2 = initialize_pending_reset [where E = ?E2 and w = stale_world and now = "Finite 0"
      and st = stale_state and f = ?p, THEN conjunct2, THEN conjunct1, THEN mp, OF h2]
  note T3 = initialize_pending_reset [where E = sample_env and w = stale_world
      and now = "Finite 0" and g = "\<lambda>p. True" and h = "\<lambda>n. True",
      THEN conjunct2, THEN conjunct2, THEN conjunct1, THEN mp, OF h3]
  note T4 = initialize_pending_reset [where E = sample_env and r = ?w3,
      THEN conjunct2, THEN conjunct2, THEN conjunct2, THEN conjunct1, THEN mp, OF h4]
  note T5 = initialize_pending_reset [where E = ?E4 and r = ?w3 and p = ?p,
      THEN conjunct2, THEN conjunct2, THEN conjunct2, THEN conjunct2, THEN mp, OF h5]
  from T1 T2 T3 T4 T5 show ?thesis by blast
qed

lemma initialize_stale:
  "initialize sample_env (Finite 0) stale_world =
     (None, \<lparr>state = stale_state, stateFile = Pickled stale_state, autoChecker = True,
             shuttingDown = False, events = [TimerStart 86400000]\<rparr>)"
proof -
  have l: "load_state sample_env stale_world = stale_world\<lparr>state := stale_state\<rparr>"
    by (simp add: load_state_def Let_def stale_world_fields stale_state_fields
        sample_env_fields str_def)
  have s: "sweep sample_env True (stale_world\<lparr>state := stale_state\<rparr>) =
           (None, stale_world\<lparr>state := stale_state\<rparr>)"
    by (simp add: sweep_def sample_env_fields)
  have c: "new_AutoUpdateChecker sample_env (Finite 0) (stale_world\<lparr>state := stale_state\<rparr>) =
     (None, \<lparr>state = stale_state, stateFile = Pickled stale_state, autoChecker = True,
             shuttingDown = False, events = [TimerStart 86400000]\<rparr>)"
    by (simp add: new_AutoUpdateChecker_def AutoUpdateChecker_init_def secsTillNext_def
        sample_env_fields stale_state_fields exact_minus_def py_min_def py_max_def
        CHECK_INTERVAL_def emit_def stale_world_def sample_world_def)
  show ?thesis
    by (simp add: initialize_def l s c sample_env_fields stale_world_fields)
qed

text \<open>
  Claim C4 as stated fails when the startup notification is disabled: \<open>initialize\<close>
  does not look at the file, and the state keeps a \<open>pendingUpdateFile\<close> that does not
  exist (until the pending update is read).
\<close>
theorem initialize_stale_counterexample:
  "initialize sample_env (Finite 0) stale_world =
     (None, \<lparr>state = stale_state, stateFile = Pickled stale_state, autoChecker = True,
             shuttingDown = False, events = [TimerStart 86400000]\<rparr>) \<and>
   stale_state ''pendingUpdateFile'' = Some (PStr (str ''D:/nvda/updates/nvda_2025.1.exe'')) \<and>
   os_path_isfile sample_env (PStr (str ''D:/nvda/updates/nvda_2025.1.exe'')) = Inr False \<and>
   \<not> pending_reset stale_state"
  by (simp add: initialize_stale stale_state_fields sample_env_fields pending_reset_def
      os_path_isfile_def)


section \<open>Properties of the update checkers\<close>

lemma utf8_points_ascii: "\<forall>c\<in>set s. c < 128 \<Longrightarrow> utf8_points s = Some s"
  by (induction s) (simp_all add: utf8_head_def)

lemma decode_utf8_ascii:
  assumes "\<forall>c\<in>set s. c < 128"
  shows "decode_utf8 (map of_nat s) = Some s"
proof -
  have "map unat (map of_nat s :: byte list) = s"
    using assms by (induction s) (simp_all add: unat_of_nat)
  with assms show ?thesis by (simp add: decode_utf8_def utf8_points_ascii)
qed

lemma sample_info_text:
  "\<forall>c\<in>set (response_text sample_info). c < 128"
  "response_text sample_info \<noteq> []"
  "single_line_fields sample_info"
  by (simp_all add: response_text_def sample_info_def field_line_def opt_line_def sep_def
      str_def single_line_fields_def one_line_def opt_one_line_def is_linebreak_def)

lemma update_env_fields:
  "conf_allowUsageStats update_env = True"
  "conf_startupNotification update_env = False"
  "stateFile_write update_env = Written"
  "fromtimestamp update_env v = Inr (2024, 11)"
  "uuid4_hex update_env = str ''0f1e2d3c''"
  "winVersion update_env = winVersion sample_env"
  "fetch update_env url params =
     Inr \<lparr>status_code = 200, content = map of_nat (response_text sample_info)\<rparr>"
  by (simp_all add: update_env_def sample_env_fields)

lemma checkForUpdate_params_update_env:
  "st ''id'' \<noteq> None \<or> \<not> AUTO \<Longrightarrow> \<exists>ps. checkForUpdate_params update_env st AUTO = Inr ps"
  by (auto simp: checkForUpdate_params_def update_env_fields winVersionText_sample Let_def)

lemma checkForUpdate_update_env:
  assumes "st ''id'' \<noteq> None \<or> \<not> AUTO"
  shows "checkForUpdate update_env st AUTO = Inr (Some sample_info)"
proof -
  from checkForUpdate_params_update_env [of st AUTO] assms
  obtain ps where "checkForUpdate_params update_env st AUTO = Inr ps" by blast
  then show ?thesis
    by (simp add: checkForUpdate_def update_env_fields decode_utf8_ascii sample_info_text
        parse_response_text)
qed

lemma rotate_id_fields:
  "events (rotate_id E a b w) = events w"
  "stateFile (rotate_id E a b w) = stateFile w"
  "autoChecker (rotate_id E a b w) = autoChecker w"
  "k \<noteq> ''id'' \<Longrightarrow> state (rotate_id E a b w) k = state w k"
  by (simp_all add: rotate_id_def)

lemma checker_result_found:
  assumes "\<not> AUTO \<or> state w ''dontRemindVersion'' \<noteq> None"
  shows "checker_result AUTO (Some info) w =
     (None, w\<lparr>events := events w @
        (if \<not> AUTO then [ProgressDone, ResultDialog (Some info) False]
         else if state w ''dontRemindVersion'' = Some (PStr (version info)) then []
         else [ResultDialog (Some info) True])\<rparr>)"
  using assms by (auto simp: checker_result_def emit_def)

lemma saveState_fields:
  "state (saveState E w) = state w"
  "autoChecker (saveState E w) = autoChecker w"
  "events (saveState E w) = events w @
     [case stateFile_write E of
        Written \<Rightarrow> PickleDump (state w)
      | OpenFails \<Rightarrow> LogDebugWarning ''Error saving state''
      | DumpFails \<Rightarrow> LogDebugWarning ''Error saving state'']"
  "stateFile (saveState E w) =
     (case stateFile_write E of
        Written \<Rightarrow> Pickled (state w)
      | OpenFails \<Rightarrow> stateFile w
      | DumpFails \<Rightarrow> Unreadable)"
  by (cases "stateFile_write E"; simp add: saveState_def emit_simps)+

lemma setNextCheck_fields:
  "state (setNextCheck r w) = state w"
  "stateFile (setNextCheck r w) = stateFile w"
  "events (setNextCheck r w) = events w @
     [TimerStop, TimerStart ((if r then RETRY_INTERVAL else CHECK_INTERVAL) * 1000)]"
  by (simp_all add: setNextCheck_def emit_simps)

lemma UpdateChecker_bg_found:
  assumes "state w ''lastCheck'' = Some v"
    and "fromtimestamp E v = Inr lastYM"
    and "checkForUpdate E (state (rotate_id E lastYM nowYM w)) AUTO = Inr (Some info)"
    and "\<not> AUTO \<or> state w ''dontRemindVersion'' \<noteq> None"
  shows "fst (UpdateChecker_bg E AUTO nowYM nowTime w) = None"
    and "state (snd (UpdateChecker_bg E AUTO nowYM nowTime w)) =
           (state (rotate_id E lastYM nowYM w))
             (''dontRemindVersion'' \<mapsto> PStr (version info), ''lastCheck'' \<mapsto> PFloat nowTime)"
    and "stateFile (snd (UpdateChecker_bg E AUTO nowYM nowTime w)) =
           (case stateFile_write E of
              Written \<Rightarrow> Pickled (state (snd (UpdateChecker_bg E AUTO nowYM nowTime w)))
            | OpenFails \<Rightarrow> stateFile w
            | DumpFails \<Rightarrow> Unreadable)"
    and "events (snd (UpdateChecker_bg E AUTO nowYM nowTime w)) =
           events w @
           (if \<not> AUTO then [ProgressDone, ResultDialog (Some info) False]
            else if state w ''dontRemindVersion'' = Some (PStr (version info)) then []
            else [ResultDialog (Some info) True]) @
           [case stateFile_write E of
              Written \<Rightarrow> PickleDump (state (snd (UpdateChecker_bg E AUTO nowYM nowTime w)))
            | OpenFails \<Rightarrow> LogDebugWarning ''Error saving state''
            | DumpFails \<Rightarrow> LogDebugWarning ''Error saving state''] @
           (if autoChecker w then [TimerStop, TimerStart (CHECK_INTERVAL * 1000)] else [])"
proof -
  let ?w1 = "rotate_id E lastYM nowYM w"
  have d: "\<not> AUTO \<or> state ?w1 ''dontRemindVersion'' \<noteq> None"
    using assms(4) by (simp add: rotate_id_fields)
  note r = checker_result_found [OF d, of info]
  have bg: "UpdateChecker_bg E AUTO nowYM nowTime w =
    (let w2 = snd (checker_result AUTO (Some info) ?w1);
         w4 = w2\<lparr>state := (state w2)(''dontRemindVersion'' \<mapsto> PStr (version info),
                                       ''lastCheck'' \<mapsto> PFloat nowTime)\<rparr>;
         w5 = saveState E w4
     in (None, if autoChecker w5 then setNextCheck False w5 else w5))"
    using assms(1,2,3) by (simp add: UpdateChecker_bg_def Let_def r)
  show "fst (UpdateChecker_bg E AUTO nowYM nowTime w) = None"
    by (simp add: bg Let_def)
  show s: "state (snd (UpdateChecker_bg E AUTO nowYM nowTime w)) =
           (state (rotate_id E lastYM nowYM w))
             (''dontRemindVersion'' \<mapsto> PStr (version info), ''lastCheck'' \<mapsto> PFloat nowTime)"
    by (simp add: bg Let_def r saveState_fields setNextCheck_fields)
  show "stateFile (snd (UpdateChecker_bg E AUTO nowYM nowTime w)) =
           (case stateFile_write E of
              Written \<Rightarrow> Pickled (state (snd (UpdateChecker_bg E AUTO nowYM nowTime w)))
            | OpenFails \<Rightarrow> stateFile w
            | DumpFails \<Rightarrow> Unreadable)"
    unfolding s
    by (cases "stateFile_write E";
        simp add: bg Let_def r saveState_fields setNextCheck_fields rotate_id_fields)
  show "events (snd (UpdateChecker_bg E AUTO nowYM nowTime w)) =
           events w @
           (if \<not> AUTO then [ProgressDone, ResultDialog (Some info) False]
            else if state w ''dontRemindVersion'' = Some (PStr (version info)) then []
            else [ResultDialog (Some info) True]) @
           [case stateFile_write E of
              Written \<Rightarrow> PickleDump (state (snd (UpdateChecker_bg E AUTO nowYM nowTime w)))
            | OpenFails \<Rightarrow> LogDebugWarning ''Error saving state''
            | DumpFails \<Rightarrow> LogDebugWarning ''Error saving state''] @
           (if autoChecker w then [TimerStop, TimerStart (CHECK_INTERVAL * 1000)] else [])"
    unfolding s
    by (cases "stateFile_write E";
        simp add: bg Let_def r saveState_fields setNextCheck_fields rotate_id_fields)
qed


lemma UpdateChecker_bg_silent:
  assumes "state w ''lastCheck'' = Some v"
    and "fromtimestamp E v = Inr lastYM"
    and "checkForUpdate E (state (rotate_id E lastYM nowYM w)) True = Inr (Some info)"
    and "state w ''dontRemindVersion'' = Some (PStr (version info))"
  shows "fst (UpdateChecker_bg E True nowYM nowTime w) = None"
    and "filter is_dialog (events (snd (UpdateChecker_bg E True nowYM nowTime w))) =
         filter is_dialog (events w)"
proof -
  have d: "\<not> True \<or> state w ''dontRemindVersion'' \<noteq> None" using assms(4) by simp
  show "fst (UpdateChecker_bg E True nowYM nowTime w) = None"
    by (rule UpdateChecker_bg_found(1) [OF assms(1,2,3) d])
  show "filter is_dialog (events (snd (UpdateChecker_bg E True nowYM nowTime w))) =
        filter is_dialog (events w)"
    unfolding UpdateChecker_bg_found(4) [OF assms(1,2,3) d]
    using assms(4) by (cases "stateFile_write E") (simp_all add: is_dialog_def)
qed

lemma UpdateChecker_bg_KeyError:
  assumes "state w ''lastCheck'' = Some v"
    and "fromtimestamp E v = Inr lastYM"
    and "checkForUpdate E (state (rotate_id E lastYM nowYM w)) True = Inr (Some info)"
    and "state w ''dontRemindVersion'' = None"
  shows "UpdateChecker_bg E True nowYM nowTime w =
         (Some (KeyError ''dontRemindVersion''), rotate_id E lastYM nowYM w)"
  using assms
  by (simp add: UpdateChecker_bg_def Let_def checker_result_def rotate_id_fields)

text \<open>
  Claim C10. A check, manual or automatic, that returns a descriptor and completes
  sets \<open>dontRemindVersion\<close> of the state to the version of the descriptor, and
  \<open>lastCheck\<close> to the current time, before \<open>saveState\<close> is called: the dictionary that is
  pickled holds these values (a failing write is logged). An automatic check whose
  descriptor has the stored \<open>dontRemindVersion\<close> as its version shows no result dialog;
  so an automatic check that follows a completed check and returns the same version
  shows none. An automatic check on a state without the key \<open>dontRemindVersion\<close> does
  not complete: \<open>_result\<close> raises \<open>KeyError\<close>.
\<close>
theorem UpdateChecker_bg_dontRemind:
  assumes "state w ''lastCheck'' = Some v"
    and "fromtimestamp E v = Inr lastYM"
    and "checkForUpdate E (state (rotate_id E lastYM nowYM w)) AUTO = Inr (Some info)"
  shows
   "(\<not> AUTO \<or> state w ''dontRemindVersion'' \<noteq> None \<longrightarrow>
       fst (UpdateChecker_bg E AUTO nowYM nowTime w) = None \<and>
       state (snd (UpdateChecker_bg E AUTO nowYM nowTime w)) ''dontRemindVersion'' =
         Some (PStr (version info)) \<and>
       state (snd (UpdateChecker_bg E AUTO nowYM nowTime w)) ''lastCheck'' =
         Some (PFloat nowTime) \<and>
       stateFile (snd (UpdateChecker_bg E AUTO nowYM nowTime w)) =
         (case stateFile_write E of
            Written \<Rightarrow> Pickled (state (snd (UpdateChecker_bg E AUTO nowYM nowTime w)))
          | OpenFails \<Rightarrow> stateFile w
          | DumpFails \<Rightarrow> Unreadable) \<and>
       events (snd (UpdateChecker_bg E AUTO nowYM nowTime w)) =
         events w @
         (if \<not> AUTO then [ProgressDone, ResultDialog (Some info) False]
          else if state w ''dontRemindVersion'' = Some (PStr (version info)) then []
          else [ResultDialog (Some info) True]) @
         [case stateFile_write E of
            Written \<Rightarrow> PickleDump (state (snd (UpdateChecker_bg E AUTO nowYM nowTime w)))
          | OpenFails \<Rightarrow> LogDebugWarning ''Error saving state''
          | DumpFails \<Rightarrow> LogDebugWarning ''Error saving state''] @
         (if autoChecker w then [TimerStop, TimerStart (CHECK_INTERVAL * 1000)] else [])) \<and>
    (AUTO \<and> state w ''dontRemindVersion'' = Some (PStr (version info)) \<longrightarrow>
       fst (UpdateChecker_bg E AUTO nowYM nowTime w) = None \<and>
       filter is_dialog (events (snd (UpdateChecker_bg E AUTO nowYM nowTime w))) =
         filter is_dialog (events w)) \<and>
    (AUTO \<and> state w ''dontRemindVersion'' = None \<longrightarrow>
       UpdateChecker_bg E AUTO nowYM nowTime w =
         (Some (KeyError ''dontRemindVersion''), rotate_id E lastYM nowYM w)) \<and>
    ((\<not> AUTO \<or> state w ''dontRemindVersion'' \<noteq> None) \<and>
     fromtimestamp E (PFloat nowTime) = Inr ym \<and>
     checkForUpdate E
       (state (rotate_id E ym nowYMb (snd (UpdateChecker_bg E AUTO nowYM nowTime w)))) True =
       Inr (Some infob) \<and>
     version infob = version info \<longrightarrow>
       fst (UpdateChecker_bg E True nowYMb nowTimeb
              (snd (UpdateChecker_bg E AUTO nowYM nowTime w))) = None \<and>
       filter is_dialog (events (snd (UpdateChecker_bg E True nowYMb nowTimeb
              (snd (UpdateChecker_bg E AUTO nowYM nowTime w))))) =
         filter is_dialog (events (snd (UpdateChecker_bg E AUTO nowYM nowTime w))))"
proof (intro conjI impI)
  assume d: "\<not> AUTO \<or> state w ''dontRemindVersion'' \<noteq> None"
  note f = UpdateChecker_bg_found [OF assms d]
  show "fst (UpdateChecker_bg E AUTO nowYM nowTime w) = None" by (rule f(1))
  show "state (snd (UpdateChecker_bg E AUTO nowYM nowTime w)) ''dontRemindVersion'' =
         Some (PStr (version info))"
    by (simp add: f(2))
  show "state (snd (UpdateChecker_bg E AUTO nowYM nowTime w)) ''lastCheck'' =
         Some (PFloat nowTime)"
    by (simp add: f(2))
  show "stateFile (snd (UpdateChecker_bg E AUTO nowYM nowTime w)) =
         (case stateFile_write E of
            Written \<Rightarrow> Pickled (state (snd (UpdateChecker_bg E AUTO nowYM nowTime w)))
          | OpenFails \<Rightarrow> stateFile w
          | DumpFails \<Rightarrow> Unreadable)"
    by (rule f(3))
  show "events (snd (UpdateChecker_bg E AUTO nowYM nowTime w)) =
         events w @
         (if \<not> AUTO then [ProgressDone, ResultDialog (Some info) False]
          else if state w ''dontRemindVersion'' = Some (PStr (version info)) then []
          else [ResultDialog (Some info) True]) @
         [case stateFile_write E of
            Written \<Rightarrow> PickleDump (state (snd (UpdateChecker_bg E AUTO nowYM nowTime w)))
          | OpenFails \<Rightarrow> LogDebugWarning ''Error saving state''
          | DumpFails \<Rightarrow> LogDebugWarning ''Error saving state''] @
         (if autoChecker w then [TimerStop, TimerStart (CHECK_INTERVAL * 1000)] else [])"
    by (rule f(4))
next
  assume h: "AUTO \<and> state w ''dontRemindVersion'' = Some (PStr (version info))"
  then have c: "checkForUpdate E (state (rotate_id E lastYM nowYM w)) True = Inr (Some info)"
    using assms(3) by simp
  from h have t: "AUTO = True" by simp
  from h have r: "state w ''dontRemindVersion'' = Some (PStr (version info))" by simp
  show "fst (UpdateChecker_bg E AUTO nowYM nowTime w) = None"
    unfolding t by (rule UpdateChecker_bg_silent(1) [OF assms(1,2) c r])
  show "filter is_dialog (events (snd (UpdateChecker_bg E AUTO nowYM nowTime w))) =
         filter is_dialog (events w)"
    unfolding t by (rule UpdateChecker_bg_silent(2) [OF assms(1,2) c r])
next
  assume h: "AUTO \<and> state w ''dontRemindVersion'' = None"
  then have c: "checkForUpdate E (state (rotate_id E lastYM nowYM w)) True = Inr (Some info)"
    using assms(3) by simp
  from h have t: "AUTO = True" by simp
  from h have r: "state w ''dontRemindVersion'' = None" by simp
  show "UpdateChecker_bg E AUTO nowYM nowTime w =
         (Some (KeyError ''dontRemindVersion''), rotate_id E lastYM nowYM w)"
    unfolding t by (rule UpdateChecker_bg_KeyError [OF assms(1,2) c r])
next
  assume h: "(\<not> AUTO \<or> state w ''dontRemindVersion'' \<noteq> None) \<and>
     fromtimestamp E (PFloat nowTime) = Inr ym \<and>
     checkForUpdate E
       (state (rotate_id E ym nowYMb (snd (UpdateChecker_bg E AUTO nowYM nowTime w)))) True =
       Inr (Some infob) \<and>
     version infob = version info"
  then have d: "\<not> AUTO \<or> state w ''dontRemindVersion'' \<noteq> None" by blast
  note f = UpdateChecker_bg_found [OF assms d]
  let ?w = "snd (UpdateChecker_bg E AUTO nowYM nowTime w)"
  have a: "state ?w ''lastCheck'' = Some (PFloat nowTime)"
    by (simp add: f(2) [of nowTime])
  have b: "fromtimestamp E (PFloat nowTime) = Inr ym" using h by blast
  have c: "checkForUpdate E (state (rotate_id E ym nowYMb ?w)) True = Inr (Some infob)"
    using h by blast
  have r: "state ?w ''dontRemindVersion'' = Some (PStr (version infob))"
    using h by (simp add: f(2) [of nowTime])
  show "fst (UpdateChecker_bg E True nowYMb nowTimeb ?w) = None"
    by (rule UpdateChecker_bg_silent(1) [OF a b c r])
  show "filter is_dialog (events (snd (UpdateChecker_bg E True nowYMb nowTimeb ?w))) =
         filter is_dialog (events ?w)"
    by (rule UpdateChecker_bg_silent(2) [OF a b c r])
qed

lemma rotate_id_same: "rotate_id E a a w = w"
  by (simp add: rotate_id_def)

theorem UpdateChecker_bg_dontRemind_witness:
  "state (snd (UpdateChecker_bg update_env False (2024, 11) (Finite 1730000000) sample_world))
     ''dontRemindVersion'' = Some (PStr (str ''2025.1'')) \<and>
   filter is_dialog (events (snd (UpdateChecker_bg update_env True (2024, 11)
      (Finite 1730000000)
      (sample_world\<lparr>state := sample_state(''dontRemindVersion'' \<mapsto> PStr (str ''2025.1''))\<rparr>)))) =
     [] \<and>
   fst (UpdateChecker_bg update_env True (2024, 11) (Finite 1730000000)
      (sample_world\<lparr>state := sample_state(''dontRemindVersion'' := None)\<rparr>)) =
     Some (KeyError ''dontRemindVersion'') \<and>
   filter is_dialog (events (snd (UpdateChecker_bg update_env True (2024, 12)
      (Finite 1730086400)
      (snd (UpdateChecker_bg update_env False (2024, 11) (Finite 1730000000) sample_world))))) =
     filter is_dialog (events
      (snd (UpdateChecker_bg update_env False (2024, 11) (Finite 1730000000) sample_world)))"
proof -
  let ?wa = "sample_world"
  let ?wb = "sample_world\<lparr>state := sample_state(''dontRemindVersion'' \<mapsto> PStr (str ''2025.1''))\<rparr>"
  let ?wc = "sample_world\<lparr>state := sample_state(''dontRemindVersion'' := None)\<rparr>"
  let ?wd = "snd (UpdateChecker_bg update_env False (2024, 11) (Finite 1730000000) sample_world)"
  have v: "version sample_info = str ''2025.1''" by (simp add: sample_info_def)
  have a1: "state ?wa ''lastCheck'' = Some (PInt 0)"
    by (simp add: sample_world_fields sample_state_fields)
  have b1: "state ?wb ''lastCheck'' = Some (PInt 0)"
    by (simp add: sample_state_fields)
  have c1: "state ?wc ''lastCheck'' = Some (PInt 0)"
    by (simp add: sample_state_fields)
  have t: "fromtimestamp update_env x = Inr (2024, 11)" for x
    by (rule update_env_fields)
  have a3: "checkForUpdate update_env (state (rotate_id update_env (2024, 11) (2024, 11) ?wa))
      False = Inr (Some sample_info)"
    by (simp add: checkForUpdate_update_env)
  have b3: "checkForUpdate update_env (state (rotate_id update_env (2024, 11) (2024, 11) ?wb))
      True = Inr (Some sample_info)"
    by (rule checkForUpdate_update_env) (simp add: rotate_id_same sample_state_fields)
  have c3: "checkForUpdate update_env (state (rotate_id update_env (2024, 11) (2024, 11) ?wc))
      True = Inr (Some sample_info)"
    by (rule checkForUpdate_update_env) (simp add: rotate_id_same sample_state_fields)
  have ha: "\<not> False \<or> state ?wa ''dontRemindVersion'' \<noteq> None" by simp
  have hb: "True \<and> state ?wb ''dontRemindVersion'' = Some (PStr (version sample_info))"
    by (simp add: v)
  have hc: "True \<and> state ?wc ''dontRemindVersion'' = None" by simp
  have d3: "checkForUpdate update_env (state (rotate_id update_env (2024, 11) (2024, 12) ?wd))
      True = Inr (Some sample_info)"
    by (rule checkForUpdate_update_env) (simp add: rotate_id_def)
  have hd: "(\<not> False \<or> state ?wa ''dontRemindVersion'' \<noteq> None) \<and>
     fromtimestamp update_env (PFloat (Finite 1730000000)) = Inr (2024, 11) \<and>
     checkForUpdate update_env (state (rotate_id update_env (2024, 11) (2024, 12) ?wd)) True =
       Inr (Some sample_info) \<and>
     version sample_info = version sample_info"
    using d3 by (simp add: t)
  note T1 = UpdateChecker_bg_dontRemind [OF a1 t a3, where nowTime = "Finite 1730000000",
      THEN conjunct1, THEN mp, OF ha]
  note T2 = UpdateChecker_bg_dontRemind [OF b1 t b3, where nowTime = "Finite 1730000000",
      THEN conjunct2, THEN conjunct1, THEN mp, OF hb]
  note T3 = UpdateChecker_bg_dontRemind [OF c1 t c3, where nowTime = "Finite 1730000000",
      THEN conjunct2, THEN conjunct2, THEN conjunct1, THEN mp, OF hc]
  note T4 = UpdateChecker_bg_dontRemind [OF a1 t a3, where nowTime = "Finite 1730000000"
      and nowTimeb = "Finite 1730086400" and nowYMb = "(2024, 12)",
      THEN conjunct2, THEN conjunct2, THEN conjunct2, THEN mp, OF hd]
  have e: "events ?wb = []" by (simp add: sample_world_fields)
  from T1 have r1: "state ?wd ''dontRemindVersion'' = Some (PStr (str ''2025.1''))"
    by (simp add: v)
  from T2 e have r2: "filter is_dialog (events (snd (UpdateChecker_bg update_env True (2024, 11)
      (Finite 1730000000) ?wb))) = []" by simp
  from T3 have r3: "fst (UpdateChecker_bg update_env True (2024, 11) (Finite 1730000000) ?wc) =
     Some (KeyError ''dontRemindVersion'')" by simp
  from r1 r2 r3 T4 show ?thesis by blast
qed


section \<open>Properties of the downloader\<close>

declare read_loop.simps [simp del]

lemma attempted_append: "attempted (xs @ ys) = attempted xs @ attempted ys"
  by (induction xs rule: attempted.induct) simp_all

lemma failed_append: "failed (xs @ ys) = failed xs @ failed ys"
  by (induction xs rule: failed.induct) simp_all

lemma reported_append: "reported (xs @ ys) = reported xs @ reported ys"
  by (induction xs rule: reported.induct) simp_all

lemmas trace_append = attempted_append failed_append reported_append

lemma remote_read_shorter:
  "remote_read N rm off ch stream = Inr (block, rest) \<Longrightarrow> block \<noteq> [] \<Longrightarrow>
   length rest < length stream"
  by (auto simp: remote_read_def split: if_splits)

lemma read_loop_preserves:
  assumes poll: "\<And>d. R d (snd (shouldCancel N d))"
    and wr: "\<And>d block d'. local_write N block d = Inr d' \<Longrightarrow> R d d'"
    and report: "\<And>d a b. R d (guiExec (DownloadReport a b) d)"
    and refl: "\<And>d. R d d"
    and trans: "\<And>a b c. R a b \<Longrightarrow> R b c \<Longrightarrow> R a c"
  shows "R d (snd (read_loop N rm hashing sz stream read chunk hashed d))"
proof (induction stream arbitrary: read chunk hashed d rule: length_induct)
  case (1 stream)
  obtain c d1 where sc: "shouldCancel N d = (c, d1)" by (cases "shouldCancel N d")
  have r1: "R d d1" using poll [of d] sc by simp
  define ch where "ch = (if sz - read < chunk then sz - read else chunk)"
  show ?case
  proof (cases c)
    case True
    then have "read_loop N rm hashing sz stream read chunk hashed d = (Cancelled, d1)"
      by (subst read_loop.simps) (simp add: sc)
    with r1 show ?thesis by simp
  next
    case False
    note nc = this
    show ?thesis
    proof (cases "remote_read N rm read ch stream")
      case (Inl e)
      then have "read_loop N rm hashing sz stream read chunk hashed d = (Raised e, d1)"
        using nc by (subst read_loop.simps) (simp add: sc ch_def)
      with r1 show ?thesis by simp
    next
      case (Inr bs)
      obtain block rest where bs: "bs = (block, rest)" by (cases bs)
      show ?thesis
      proof (cases "block = []")
        case True
        then have "read_loop N rm hashing sz stream read chunk hashed d = (Done read hashed, d1)"
          using nc Inr bs by (subst read_loop.simps) (simp add: sc ch_def)
        with r1 show ?thesis by simp
      next
        case False
        note ne = this
        obtain c2 d2 where sc2: "shouldCancel N d1 = (c2, d2)" by (cases "shouldCancel N d1")
        have r2: "R d d2" using trans [OF r1 poll [of d1]] sc2 by simp
        show ?thesis
        proof (cases c2)
          case True
          then have "read_loop N rm hashing sz stream read chunk hashed d = (Cancelled, d2)"
            using nc Inr bs ne by (subst read_loop.simps) (simp add: sc sc2 ch_def)
          with r2 show ?thesis by simp
        next
          case False
          note nc2 = this
          show ?thesis
          proof (cases "local_write N block d2")
            case (Inl e)
            then have "read_loop N rm hashing sz stream read chunk hashed d = (Raised e, d2)"
              using nc nc2 Inr bs ne by (subst read_loop.simps) (simp add: sc sc2 ch_def)
            with r2 show ?thesis by simp
          next
            case (Inr d3)
            let ?d4 = "guiExec (DownloadReport (read + int (length block)) sz) d3"
            let ?next = "read_loop N rm hashing sz rest (read + int (length block)) ch
                (if hashing then hashed @ block else hashed) ?d4"
            have eq: "read_loop N rm hashing sz stream read chunk hashed d = ?next"
              using nc nc2 \<open>remote_read N rm read ch stream = Inr bs\<close> bs ne Inr
              by (subst read_loop.simps) (simp add: sc sc2 ch_def)
            have r4: "R d ?d4"
              using trans [OF trans [OF r2 wr [OF Inr]] report] .
            have "length rest < length stream"
              using \<open>remote_read N rm read ch stream = Inr bs\<close> bs ne
              by (rule_tac remote_read_shorter) auto
            with "1.IH" have ih: "R ?d4 (snd ?next)" by blast
            from trans [OF r4 ih] show ?thesis by (simp add: eq)
          qed
        qed
      qed
    qed
  qed
qed


lemma read_loop_same:
  "attempted (trace (snd (read_loop N rm hashing sz stream read chunk hashed d))) =
     attempted (trace d) \<and>
   failed (trace (snd (read_loop N rm hashing sz stream read chunk hashed d))) =
     failed (trace d) \<and>
   reported (trace (snd (read_loop N rm hashing sz stream read chunk hashed d))) =
     reported (trace d) \<and>
   urls (snd (read_loop N rm hashing sz stream read chunk hashed d)) = urls d \<and>
   fileHash (snd (read_loop N rm hashing sz stream read chunk hashed d)) = fileHash d"
  by (rule read_loop_preserves [where R = "\<lambda>a b. attempted (trace b) = attempted (trace a) \<and>
        failed (trace b) = failed (trace a) \<and> reported (trace b) = reported (trace a) \<and>
        urls b = urls a \<and> fileHash b = fileHash a"])
     (auto simp: shouldCancel_def local_write_def guiExec_def trace_append Let_def
        split: if_splits)

lemma download_same:
  "attempted (trace (snd (UpdateDownloader_download N url d))) = attempted (trace d) @ [url] \<and>
   failed (trace (snd (UpdateDownloader_download N url d))) = failed (trace d) \<and>
   reported (trace (snd (UpdateDownloader_download N url d))) = reported (trace d) \<and>
   urls (snd (UpdateDownloader_download N url d)) = urls d \<and>
   fileHash (snd (UpdateDownloader_download N url d)) = fileHash d"
proof -
  let ?d0 = "d\<lparr>trace := trace d @ [UrlOpen url]\<rparr>"
  have a: "attempted (trace ?d0) = attempted (trace d) @ [url] \<and>
      failed (trace ?d0) = failed (trace d) \<and> reported (trace ?d0) = reported (trace d) \<and>
      urls ?d0 = urls d \<and> fileHash ?d0 = fileHash d"
    by (simp add: trace_append)
  show ?thesis
  proof (cases "urlopen N url")
    case (Inl e)
    with a show ?thesis by (simp add: UpdateDownloader_download_def Let_def)
  next
    case (Inr rm)
    note rm = this
    show ?thesis
    proof (cases "remote_content_length rm")
      case (Inl e)
      with a rm show ?thesis by (simp add: UpdateDownloader_download_def Let_def)
    next
      case (Inr sz)
      let ?h = "case fileHash d of None \<Rightarrow> False | Some h \<Rightarrow> h \<noteq> []"
      let ?d1 = "guiExec (DownloadReport 0 sz) (?d0\<lparr>destFile := Some []\<rparr>)"
      have b: "attempted (trace ?d1) = attempted (trace d) @ [url] \<and>
          failed (trace ?d1) = failed (trace d) \<and> reported (trace ?d1) = reported (trace d) \<and>
          urls ?d1 = urls d \<and> fileHash ?d1 = fileHash d"
        by (simp add: trace_append guiExec_def)
      obtain r d2 where l: "read_loop N rm ?h sz (remote_body rm) 0 DOWNLOAD_BLOCK_SIZE [] ?d1 =
          (r, d2)"
        by (cases "read_loop N rm ?h sz (remote_body rm) 0 DOWNLOAD_BLOCK_SIZE [] ?d1")
      have c: "attempted (trace d2) = attempted (trace d) @ [url] \<and>
          failed (trace d2) = failed (trace d) \<and> reported (trace d2) = reported (trace d) \<and>
          urls d2 = urls d \<and> fileHash d2 = fileHash d"
        using read_loop_same [of N rm ?h sz "remote_body rm" 0 DOWNLOAD_BLOCK_SIZE "[]" ?d1]
          b l by simp
      show ?thesis
        using a c rm Inr l
        by (cases r)
           (simp_all add: UpdateDownloader_download_def Let_def guiExec_def trace_append)
    qed
  qed
qed

lemma bg_urls_trace:
  "\<exists>n. n \<le> length us \<and>
     attempted (trace (snd (bg_urls N us d))) = attempted (trace d) @ take n us \<and>
     reported (trace (snd (bg_urls N us d))) = reported (trace d) \<and>
     urls (snd (bg_urls N us d)) = urls d \<and>
     (case fst (bg_urls N us d) of
        None \<Rightarrow> n = length us \<and> failed (trace (snd (bg_urls N us d))) = failed (trace d) @ us
      | Some s \<Rightarrow> 0 < n \<and>
          failed (trace (snd (bg_urls N us d))) = failed (trace d) @ take (n - 1) us)"
proof (induction us arbitrary: d)
  case Nil
  show ?case by simp
next
  case (Cons u us)
  obtain r d1 where dl: "UpdateDownloader_download N u d = (r, d1)"
    by (cases "UpdateDownloader_download N u d")
  have s: "attempted (trace d1) = attempted (trace d) @ [u]" "failed (trace d1) = failed (trace d)"
    "reported (trace d1) = reported (trace d)" "urls d1 = urls d"
    using download_same [of N u d] dl by simp_all
  show ?case
  proof (cases r)
    case None
    obtain c d2 where sc: "shouldCancel N d1 = (c, d2)" by (cases "shouldCancel N d1")
    then have t: "trace d2 = trace d1" "urls d2 = urls d1" by (auto simp: shouldCancel_def)
    have "bg_urls N (u # us) d = (Some (\<not> c), d2)" using dl None sc by simp
    with s t show ?thesis by (intro exI [of _ 1]) simp
  next
    case (Some e)
    let ?d = "d1\<lparr>trace := trace d1 @ [LogDownloadError u e]\<rparr>"
    have eq: "bg_urls N (u # us) d = bg_urls N us ?d" using dl Some by simp
    from Cons.IH [of ?d] obtain n where n: "n \<le> length us"
      "attempted (trace (snd (bg_urls N us ?d))) = attempted (trace ?d) @ take n us"
      "reported (trace (snd (bg_urls N us ?d))) = reported (trace ?d)"
      "urls (snd (bg_urls N us ?d)) = urls ?d"
      "case fst (bg_urls N us ?d) of
        None \<Rightarrow> n = length us \<and> failed (trace (snd (bg_urls N us ?d))) = failed (trace ?d) @ us
      | Some s \<Rightarrow> 0 < n \<and>
          failed (trace (snd (bg_urls N us ?d))) = failed (trace ?d) @ take (n - 1) us"
      by blast
    show ?thesis
      unfolding eq
      using n s
      by (intro exI [of _ "Suc n"]) (auto simp: trace_append split: option.splits
          simp: take_Suc_conv_app_nth gr0_conv_Suc)
  qed
qed








lemma cancelled_within_mono:
  "cancelled_within N p \<Longrightarrow> p \<le> q \<Longrightarrow> cancelled_within N q"
  by (auto simp: cancelled_within_def split: option.splits)




lemma sample_net_fields:
  "urlopen sample_net (str ''https://a.example/nvda.exe'') = Inr short_remote"
  "urlopen sample_net (str ''https://b.example/nvda.exe'') = Inr tampered_remote"
  "urlopen sample_net (str ''https://c.example/nvda.exe'') = Inr genuine_remote"
  "cancel_at sample_net = None"
  "dest_writable sample_net = True"
  "dest_capacity sample_net = None"
  "dest_removable sample_net = True"
  "sha1_hexdigest sample_net = sample_sha1"
  "read_negative_ok sample_net = True"
  by (simp_all add: sample_net_def str_def)

lemma read_loop_short:
  "destFile d = Some [] \<Longrightarrow>
   read_loop sample_net short_remote True 4 [0x4D, 0x5A, 0x90] 0 DOWNLOAD_BLOCK_SIZE [] d =
     (Done 3 [0x4D, 0x5A, 0x90],
      d\<lparr>polls := polls d + 3, destFile := Some [0x4D, 0x5A, 0x90],
        trace := trace d @ [GuiExec (DownloadReport 3 4)]\<rparr>)"
  apply (subst read_loop.simps)
  apply (simp add: shouldCancel_def sample_net_fields remote_read_def short_remote_def
      local_write_def guiExec_def DOWNLOAD_BLOCK_SIZE_def)
  apply (subst read_loop.simps)
  apply (simp add: shouldCancel_def sample_net_fields remote_read_def short_remote_def)
  done


lemma read_loop_four:
  "destFile d = Some [] \<Longrightarrow> remote_breaks_at rm = None \<Longrightarrow>
   read_loop sample_net rm True 4 [p, q, r, t] 0 DOWNLOAD_BLOCK_SIZE [] d =
     (Done 4 [p, q, r, t],
      d\<lparr>polls := polls d + 3, destFile := Some [p, q, r, t],
        trace := trace d @ [GuiExec (DownloadReport 4 4)]\<rparr>)"
  apply (subst read_loop.simps)
  apply (simp add: shouldCancel_def sample_net_fields remote_read_def
      local_write_def guiExec_def DOWNLOAD_BLOCK_SIZE_def)
  apply (subst read_loop.simps)
  apply (simp add: shouldCancel_def sample_net_fields remote_read_def)
  done

lemma download_short:
  assumes "fileHash d = Some (str ''c7b33ddcc42361fdb847036fc07e880b81935d5d'')"
  shows "UpdateDownloader_download sample_net (str ''https://a.example/nvda.exe'') d =
     (Some ContentTooShort,
      d\<lparr>polls := polls d + 3, destFile := Some [0x4D, 0x5A, 0x90],
        trace := trace d @ [UrlOpen (str ''https://a.example/nvda.exe''),
          GuiExec (DownloadReport 0 4), GuiExec (DownloadReport 3 4)]\<rparr>)"
proof -
  have h: "str ''c7b33ddcc42361fdb847036fc07e880b81935d5d'' \<noteq> []" by (simp add: str_def)
  have b: "remote_body short_remote = [0x4D, 0x5A, 0x90]" "remote_code short_remote = 200"
    "remote_content_length short_remote = Inr 4"
    by (simp_all add: short_remote_def)
  show ?thesis
    by (simp add: UpdateDownloader_download_def Let_def sample_net_fields assms h b
        read_loop_short guiExec_def)
qed

lemma download_tampered:
  assumes "fileHash d = Some (str ''c7b33ddcc42361fdb847036fc07e880b81935d5d'')"
  shows "UpdateDownloader_download sample_net (str ''https://b.example/nvda.exe'') d =
     (Some IncorrectFileHash,
      d\<lparr>polls := polls d + 3, destFile := Some [0x4D, 0x5A, 0x90, 0x01],
        trace := trace d @ [UrlOpen (str ''https://b.example/nvda.exe''),
          GuiExec (DownloadReport 0 4), GuiExec (DownloadReport 4 4)]\<rparr>)"
proof -
  have h: "str ''c7b33ddcc42361fdb847036fc07e880b81935d5d'' \<noteq> []" by (simp add: str_def)
  have b: "remote_body tampered_remote = [0x4D, 0x5A, 0x90, 0x01]"
    "remote_code tampered_remote = 200" "remote_content_length tampered_remote = Inr 4"
    "remote_breaks_at tampered_remote = None"
    by (simp_all add: tampered_remote_def)
  have s: "sample_sha1 [0x4D, 0x5A, 0x90, 0x01] \<noteq> str ''c7b33ddcc42361fdb847036fc07e880b81935d5d''"
    by (simp add: sample_sha1_def str_def)
  show ?thesis
    by (simp add: UpdateDownloader_download_def Let_def sample_net_fields assms h b s
        read_loop_four guiExec_def)
qed

lemma download_genuine:
  assumes "fileHash d = Some (str ''c7b33ddcc42361fdb847036fc07e880b81935d5d'')"
  shows "UpdateDownloader_download sample_net (str ''https://c.example/nvda.exe'') d =
     (None,
      d\<lparr>polls := polls d + 3, destFile := Some [0x4D, 0x5A, 0x90, 0x00],
        trace := trace d @ [UrlOpen (str ''https://c.example/nvda.exe''),
          GuiExec (DownloadReport 0 4), GuiExec (DownloadReport 4 4),
          GuiExec (DownloadReport 4 4)]\<rparr>)"
proof -
  have h: "str ''c7b33ddcc42361fdb847036fc07e880b81935d5d'' \<noteq> []" by (simp add: str_def)
  have b: "remote_body genuine_remote = [0x4D, 0x5A, 0x90, 0x00]"
    "remote_code genuine_remote = 200" "remote_content_length genuine_remote = Inr 4"
    "remote_breaks_at genuine_remote = None"
    by (simp_all add: genuine_remote_def)
  have s: "sample_sha1 [0x4D, 0x5A, 0x90, 0x00] = str ''c7b33ddcc42361fdb847036fc07e880b81935d5d''"
    by (simp add: sample_sha1_def)
  show ?thesis
    by (simp add: UpdateDownloader_download_def Let_def sample_net_fields assms h b s
        read_loop_four guiExec_def)
qed

lemma sample_downloader_fields:
  "urls (sample_downloader us) = us"
  "fileHash (sample_downloader us) = Some (str ''c7b33ddcc42361fdb847036fc07e880b81935d5d'')"
  "destFile (sample_downloader us) = Some []"
  "polls (sample_downloader us) = 0"
  "trace (sample_downloader us) = []"
  by (simp_all add: sample_downloader_def)

text \<open>
  Claim C2 fails of the code where it has the partial file removed. A mirror that
  delivers three of the four bytes it announces makes \<open>_download\<close> raise "Content too
  short", and one that delivers a changed byte makes it raise "Content has incorrect
  file hash"; with no mirror left, \<open>_bg\<close> logs the error and reports it, and the bytes
  received stay in the file at \<open>destPath\<close>. Only the path taken on cancellation removes
  the file.
\<close>
theorem UpdateDownloader_bg_leaves_file:
  "UpdateDownloader_bg sample_net (sample_downloader [str ''https://a.example/nvda.exe'']) =
     \<lparr>urls = [str ''https://a.example/nvda.exe''],
      fileHash = Some (str ''c7b33ddcc42361fdb847036fc07e880b81935d5d''),
      destFile = Some [0x4D, 0x5A, 0x90], polls = 3,
      trace = [UrlOpen (str ''https://a.example/nvda.exe''),
        GuiExec (DownloadReport 0 4), GuiExec (DownloadReport 3 4),
        LogDownloadError (str ''https://a.example/nvda.exe'') ContentTooShort,
        GuiExec ShowError]\<rparr> \<and>
   UpdateDownloader_bg sample_net (sample_downloader [str ''https://b.example/nvda.exe'']) =
     \<lparr>urls = [str ''https://b.example/nvda.exe''],
      fileHash = Some (str ''c7b33ddcc42361fdb847036fc07e880b81935d5d''),
      destFile = Some [0x4D, 0x5A, 0x90, 0x01], polls = 3,
      trace = [UrlOpen (str ''https://b.example/nvda.exe''),
        GuiExec (DownloadReport 0 4), GuiExec (DownloadReport 4 4),
        LogDownloadError (str ''https://b.example/nvda.exe'') IncorrectFileHash,
        GuiExec ShowError]\<rparr>"
  by (simp add: UpdateDownloader_bg_def sample_downloader_fields download_short
      download_tampered guiExec_def)

lemma UpdateDownloader_bg_three_mirrors:
  "UpdateDownloader_bg sample_net
     (sample_downloader [str ''https://a.example/nvda.exe'', str ''https://b.example/nvda.exe'',
        str ''https://c.example/nvda.exe'', str ''https://d.example/nvda.exe'']) =
     \<lparr>urls = [str ''https://a.example/nvda.exe'', str ''https://b.example/nvda.exe'',
        str ''https://c.example/nvda.exe'', str ''https://d.example/nvda.exe''],
      fileHash = Some (str ''c7b33ddcc42361fdb847036fc07e880b81935d5d''),
      destFile = Some [0x4D, 0x5A, 0x90, 0x00], polls = 10,
      trace = [UrlOpen (str ''https://a.example/nvda.exe''),
        GuiExec (DownloadReport 0 4), GuiExec (DownloadReport 3 4),
        LogDownloadError (str ''https://a.example/nvda.exe'') ContentTooShort,
        UrlOpen (str ''https://b.example/nvda.exe''),
        GuiExec (DownloadReport 0 4), GuiExec (DownloadReport 4 4),
        LogDownloadError (str ''https://b.example/nvda.exe'') IncorrectFileHash,
        UrlOpen (str ''https://c.example/nvda.exe''),
        GuiExec (DownloadReport 0 4), GuiExec (DownloadReport 4 4),
        GuiExec (DownloadReport 4 4), GuiExec DownloadSuccess]\<rparr>"
  by (simp add: UpdateDownloader_bg_def sample_downloader_fields download_short
      download_tampered download_genuine guiExec_def shouldCancel_def sample_net_fields)

end
